theory Spec2Isabelle
  imports Complex_Main
begin

section \<open>Python values, exceptions and effects\<close>

text \<open>
  The exceptions that \<^verbatim>\<open>src/models/dptnet.py\<close> can raise, or that the Python
  operators it uses can raise. An \<^verbatim>\<open>assert\<close> and a \<^verbatim>\<open>raise ValueError\<close> carry
  their message; \<^verbatim>\<open>raise NotImplementedError\<close> carries none.
\<close>

datatype py_error =
    AssertionError string
  | ValueError string
  | NotImplementedError
  | ZeroDivisionError
  | KeyError string
  | IndexError string
  | RuntimeError string

text \<open>Values of the keyword dictionary \<^verbatim>\<open>**kwargs\<close>.\<close>

datatype pyval = PyNone | PyStr string | PyInt int | PyBool bool

text \<open>
  The calls a function makes to the modules it builds or applies, in program order.
  \<open>Construct c\<close>: the constructor or factory \<open>c\<close> is called; \<open>Pad l r\<close>: the call
  \<^verbatim>\<open>F.pad(x, (l, r))\<close>; \<open>Apply m\<close>: the sub-module stored in attribute \<open>m\<close> is applied.
\<close>

datatype event = Construct string | Pad int int | Apply string

text \<open>
  A run of a Python function: the calls made so far and either the exception that
  ended the run (\<open>Inl\<close>) or the value returned (\<open>Inr\<close>).
\<close>

type_synonym 'a run = "event list \<times> (py_error + 'a)"

definition return_run :: "'a \<Rightarrow> 'a run" where
  "return_run x = ([], Inr x)"

definition raise :: "py_error \<Rightarrow> 'a run" where
  "raise e = ([], Inl e)"

definition call :: "event \<Rightarrow> (py_error + 'a) \<Rightarrow> 'a run" where
  \<comment> \<open>a call into code outside this file: it is logged, then its outcome is taken\<close>
  "call ev r = ([ev], r)"

definition enter :: "event \<Rightarrow> 'a run \<Rightarrow> 'a run" where
  \<comment> \<open>a call into code of this file: it is logged, then its body runs\<close>
  "enter ev m = (ev # fst m, snd m)"

definition bind_run :: "'a run \<Rightarrow> ('a \<Rightarrow> 'b run) \<Rightarrow> 'b run" where
  "bind_run m f =
     (case snd m of
        Inl e \<Rightarrow> (fst m, Inl e)
      | Inr x \<Rightarrow> (fst m @ fst (f x), snd (f x)))"

definition py_mod :: "int \<Rightarrow> int \<Rightarrow> py_error + int" where
  \<comment> \<open>Python's \<^verbatim>\<open>a % b\<close> on ints: the sign of the divisor, as HOL's \<open>mod\<close>; zero raises\<close>
  "py_mod a b = (if b = 0 then Inl ZeroDivisionError else Inr (a mod b))"

definition EPS :: real where
  "EPS = 1 / 10 ^ 12"

section \<open>Tensors\<close>

text \<open>
  A contiguous tensor: its sizes and its elements in row-major order, so that
  \<^verbatim>\<open>view\<close> changes the sizes and leaves the elements where they are. Floating-point
  numbers are idealised as reals.
\<close>

record tensor =
  shape :: "nat list"
  elems :: "real list"

definition numel :: "'a tensor_scheme \<Rightarrow> nat" where
  \<comment> \<open>\<^verbatim>\<open>x.numel()\<close>: the number of elements, the product of the sizes\<close>
  "numel x = prod_list (shape x)"

definition wf_tensor :: "tensor \<Rightarrow> bool" where
  "wf_tensor x \<longleftrightarrow> length (elems x) = numel x"

text \<open>A parameter of a module: a tensor and its \<^verbatim>\<open>requires_grad\<close> flag.\<close>

record parameter = tensor +
  requires_grad :: bool

text \<open>The forward function of a module that is built outside this file.\<close>

type_synonym module_fn = "tensor \<Rightarrow> py_error + tensor"

section \<open>The tensor operations the file uses\<close>

text \<open>
  Positions in row-major order: \<open>unravel s i\<close> is the index tuple of the \<open>i\<close>-th element
  of a tensor of sizes \<open>s\<close>, and \<open>ravel s js\<close> the position of the element at \<open>js\<close>.
\<close>

fun unravel :: "nat list \<Rightarrow> nat \<Rightarrow> nat list" where
  "unravel [] i = []"
| "unravel (d # ds) i = i div prod_list ds # unravel ds (i mod prod_list ds)"

fun ravel :: "nat list \<Rightarrow> nat list \<Rightarrow> nat" where
  "ravel (d # ds) (j # js) = j * prod_list ds + ravel ds js"
| "ravel ds js = 0"

text \<open>
  \<^verbatim>\<open>F.pad(x, (l, r))\<close> in its default mode: the last dimension gets \<open>l\<close> zeros in front
  and \<open>r\<close> behind; a negative amount removes elements instead, and removing more than
  there are is an error.
\<close>

definition pad_row :: "int \<Rightarrow> int \<Rightarrow> real list \<Rightarrow> real list" where
  "pad_row l r row =
     (let cut = drop (nat (- l)) row
      in replicate (nat l) 0 @ take (length cut - nat (- r)) cut @ replicate (nat r) 0)"

definition F_pad :: "tensor \<Rightarrow> int \<Rightarrow> int \<Rightarrow> py_error + tensor" where
  "F_pad x l r =
     (case rev (shape x) of
        [] \<Rightarrow> Inl (RuntimeError ''padding length too large'')
      | T # outer \<Rightarrow>
          if int T + min l 0 + min r 0 < 0
          then Inl (RuntimeError ''negative padding exceeds the input size'')
          else Inr \<lparr>shape = rev outer @ [nat (int T + l + r)],
                    elems = concat (map (\<lambda>i. pad_row l r (take T (drop (i * T) (elems x))))
                                      [0..<prod_list outer])\<rparr>)"

text \<open>
  \<^verbatim>\<open>x.view(*sizes)\<close>: the elements stay, the sizes change; one size may be \<open>-1\<close> and is
  then inferred from the number of elements.
\<close>

definition view :: "tensor \<Rightarrow> int list \<Rightarrow> py_error + tensor" where
  "view x sizes =
     (let known = filter (\<lambda>d. d \<noteq> - 1) sizes; n = int (numel x) in
      if length known + 1 < length sizes
      then Inl (RuntimeError ''only one dimension can be inferred'')
      else if list_ex (\<lambda>d. d < 0) known
      then Inl (RuntimeError ''invalid shape dimension'')
      else if length known = length sizes
      then (if prod_list known = n then Inr (x\<lparr>shape := map nat sizes\<rparr>)
            else Inl (RuntimeError ''shape is invalid for input size''))
      else if prod_list known = 0 \<or> n mod prod_list known \<noteq> 0
      then Inl (RuntimeError ''shape is invalid for input size'')
      else Inr (x\<lparr>shape := map (\<lambda>d. if d = - 1 then nat (n div prod_list known) else nat d)
                               sizes\<rparr>))"

definition unsqueeze :: "tensor \<Rightarrow> nat \<Rightarrow> py_error + tensor" where
  \<comment> \<open>\<^verbatim>\<open>x.unsqueeze(dim=d)\<close> for \<open>d\<close> not negative\<close>
  "unsqueeze x d =
     (if d \<le> length (shape x)
      then Inr (x\<lparr>shape := take d (shape x) @ [1] @ drop d (shape x)\<rparr>)
      else Inl (IndexError ''Dimension out of range''))"

text \<open>
  \<^verbatim>\<open>x * y\<close> with broadcasting: the shorter list of sizes is filled with ones from the
  left, and a dimension of size one is repeated along the other tensor's.
\<close>

fun broadcast_sizes :: "nat list \<Rightarrow> nat list \<Rightarrow> py_error + nat list" where
  "broadcast_sizes [] [] = Inr []"
| "broadcast_sizes (a # as) (b # bs) =
     (if a = b \<or> b = 1 \<or> a = 1
      then (case broadcast_sizes as bs of
              Inl e \<Rightarrow> Inl e
            | Inr s \<Rightarrow> Inr ((if a = 1 then b else a) # s))
      else Inl (RuntimeError ''The size of tensor a must match the size of tensor b''))"
| "broadcast_sizes as bs = Inl (RuntimeError ''sizes of different length'')"

definition left_fill :: "nat \<Rightarrow> nat list \<Rightarrow> nat list" where
  "left_fill n s = replicate (n - length s) 1 @ s"

definition element_at :: "nat list \<Rightarrow> real list \<Rightarrow> nat list \<Rightarrow> real" where
  \<comment> \<open>the element a tensor of sizes \<open>s\<close> contributes at index \<open>js\<close> of the broadcast result\<close>
  "element_at s xs js = xs ! ravel s (map2 (\<lambda>d j. if d = 1 then 0 else j) s js)"

definition mul :: "tensor \<Rightarrow> tensor \<Rightarrow> py_error + tensor" where
  "mul x y =
     (let n = max (length (shape x)) (length (shape y));
          sx = left_fill n (shape x); sy = left_fill n (shape y)
      in case broadcast_sizes sx sy of
           Inl e \<Rightarrow> Inl e
         | Inr s \<Rightarrow>
             Inr \<lparr>shape = s,
                  elems = map (\<lambda>i. element_at sx (elems x) (unravel s i)
                                    * element_at sy (elems y) (unravel s i))
                              [0..<prod_list s]\<rparr>)"

text \<open>
  \<^verbatim>\<open>x[j1, ..., jn]\<close>, and the sum of a mask of sizes (batch, sources, bases, frames)
  over its sources at one batch entry, basis and frame.
\<close>

definition tensor_at :: "tensor \<Rightarrow> nat list \<Rightarrow> real" where
  "tensor_at x js = elems x ! ravel (shape x) js"

definition source_sum :: "tensor \<Rightarrow> nat \<Rightarrow> nat \<Rightarrow> nat \<Rightarrow> real" where
  "source_sum m b f t = (\<Sum>s \<leftarrow> [0..<shape m ! 1]. tensor_at m [b, s, f, t])"

text \<open>The modules \<^verbatim>\<open>nn.ReLU()\<close>, \<^verbatim>\<open>nn.Sigmoid()\<close> and \<^verbatim>\<open>nn.Softmax(dim)\<close>.\<close>

datatype nonlinearity = ReLU | Sigmoid | Softmax nat

definition softmax :: "nat \<Rightarrow> tensor \<Rightarrow> py_error + tensor" where
  "softmax d x =
     (if d < length (shape x)
      then Inr (x\<lparr>elems :=
             map (\<lambda>i. exp (elems x ! i)
                       / (\<Sum>j \<leftarrow> [0..<shape x ! d].
                            exp (elems x ! ravel (shape x) ((unravel (shape x) i)[d := j]))))
                 [0..<numel x]\<rparr>)
      else Inl (IndexError ''Dimension out of range''))"

fun apply_nonlinearity :: "nonlinearity \<Rightarrow> tensor \<Rightarrow> py_error + tensor" where
  "apply_nonlinearity ReLU x = Inr (x\<lparr>elems := map (max 0) (elems x)\<rparr>)"
| "apply_nonlinearity Sigmoid x = Inr (x\<lparr>elems := map (\<lambda>v. 1 / (1 + exp (- v))) (elems x)\<rparr>)"
| "apply_nonlinearity (Softmax d) x = softmax d x"

text \<open>\<^verbatim>\<open>str(n)\<close> for a size, and \<^verbatim>\<open>str(x.size())\<close>.\<close>

definition digit_char :: "nat \<Rightarrow> char" where
  "digit_char d = ''0123456789'' ! d"

function string_of_nat :: "nat \<Rightarrow> string" where
  "string_of_nat n =
     (if n < 10 then [digit_char n] else string_of_nat (n div 10) @ [digit_char (n mod 10)])"
  by pat_completeness auto
termination
  by (relation "measure id") auto

fun join :: "string \<Rightarrow> string list \<Rightarrow> string" where
  "join sep [] = []"
| "join sep [x] = x"
| "join sep (x # y # ys) = x @ sep @ join sep (y # ys)"

definition str_Size :: "nat list \<Rightarrow> string" where
  "str_Size s = ''torch.Size(['' @ join '', '' (map string_of_nat s) @ ''])''"

definition unpack3 :: "nat list \<Rightarrow> (nat \<times> nat \<times> nat) run" where
  \<comment> \<open>\<^verbatim>\<open>a, b, c = x.size()\<close>\<close>
  "unpack3 s =
     (case s of
        [a, b, c] \<Rightarrow> return_run (a, b, c)
      | _ \<Rightarrow> raise (ValueError (if length s < 3
                 then ''not enough values to unpack (expected 3, got '' @ string_of_nat (length s) @ '')''
                 else ''too many values to unpack (expected 3)'')))"

section \<open>What the file imports\<close>

text \<open>
  \<^verbatim>\<open>choose_bases\<close> (utils.utils_tasnet), \<^verbatim>\<open>Segment1d\<close>, \<^verbatim>\<open>OverlapAdd1d\<close>
  (models.dprnn_tasnet) and \<^verbatim>\<open>GLU\<close> (models.glu) are imported by the file and
  defined elsewhere: each is a parameter here, a function from its arguments to the
  module it builds or to the exception it raises. \<open>nn_parameters\<close> is what
  \<^verbatim>\<open>nn.Module.parameters()\<close> yields for the network once its sub-modules are
  registered.
\<close>

record externals =
  choose_bases :: "int \<Rightarrow> int \<Rightarrow> int \<Rightarrow> string option \<Rightarrow> string option
                   \<Rightarrow> (string \<rightharpoonup> pyval) \<Rightarrow> py_error + (module_fn \<times> module_fn)"
  Segment1d :: "int \<Rightarrow> int \<Rightarrow> py_error + module_fn"
  OverlapAdd1d :: "int \<Rightarrow> int \<Rightarrow> py_error + module_fn"
  GLU :: "int \<Rightarrow> int \<Rightarrow> string \<Rightarrow> py_error + module_fn"
  nn_parameters :: "parameter list"

section \<open>The dual-path transformer stack\<close>

text \<open>
  \<^verbatim>\<open>IntraChunkTransformer\<close> and \<^verbatim>\<open>InterChunkTransformer\<close> have no attribute and
  no \<^verbatim>\<open>forward\<close>; their \<^verbatim>\<open>__init__\<close> calls \<^verbatim>\<open>super().__init__()\<close> and raises.
\<close>

datatype IntraChunkTransformer = IntraChunkTransformer_object
datatype InterChunkTransformer = InterChunkTransformer_object

definition IntraChunkTransformer_init :: "int \<Rightarrow> int \<Rightarrow> real \<Rightarrow> IntraChunkTransformer run" where
  "IntraChunkTransformer_init num_features hidden_channels eps = raise NotImplementedError"

definition InterChunkTransformer_init ::
  "int \<Rightarrow> int \<Rightarrow> bool \<Rightarrow> real \<Rightarrow> InterChunkTransformer run" where
  "InterChunkTransformer_init num_features hidden_channels causal eps = raise NotImplementedError"

record DualPathTransformerBlock =
  intra_chunk_block :: IntraChunkTransformer
  inter_chunk_block :: InterChunkTransformer

definition DualPathTransformerBlock_init ::
  "int \<Rightarrow> int \<Rightarrow> bool \<Rightarrow> real \<Rightarrow> DualPathTransformerBlock run" where
  "DualPathTransformerBlock_init num_features hidden_channels causal eps =
     bind_run (enter (Construct ''IntraChunkTransformer'')
                 (IntraChunkTransformer_init num_features hidden_channels eps)) (\<lambda>intra.
     bind_run (enter (Construct ''InterChunkTransformer'')
                 (InterChunkTransformer_init num_features hidden_channels causal eps)) (\<lambda>inter.
     return_run \<lparr>intra_chunk_block = intra, inter_chunk_block = inter\<rparr>))"

record DualPathTransformer =
  net :: "DualPathTransformerBlock list"

text \<open>
  \<^verbatim>\<open>for _ in range(num_blocks): net.append(DualPathTransformerBlock(...))\<close>: the
  first argument counts the iterations left, the second is \<^verbatim>\<open>net\<close> so far.
\<close>

fun append_blocks ::
  "nat \<Rightarrow> DualPathTransformerBlock list \<Rightarrow> int \<Rightarrow> int \<Rightarrow> bool \<Rightarrow> real
     \<Rightarrow> DualPathTransformerBlock list run" where
  "append_blocks 0 net' num_features hidden_channels causal eps = return_run net'"
| "append_blocks (Suc k) net' num_features hidden_channels causal eps =
     bind_run (enter (Construct ''DualPathTransformerBlock'')
                 (DualPathTransformerBlock_init num_features hidden_channels causal eps)) (\<lambda>b.
     append_blocks k (net' @ [b]) num_features hidden_channels causal eps)"

definition DualPathTransformer_init ::
  "int \<Rightarrow> int \<Rightarrow> int \<Rightarrow> bool \<Rightarrow> real \<Rightarrow> DualPathTransformer run" where
  \<comment> \<open>\<^verbatim>\<open>range(num_blocks)\<close> is empty when \<^verbatim>\<open>num_blocks\<close> is negative\<close>
  "DualPathTransformer_init num_features hidden_channels num_blocks causal eps =
     bind_run (append_blocks (nat num_blocks) [] num_features hidden_channels causal eps) (\<lambda>net'.
     bind_run (call (Construct ''Sequential'') (Inr net')) (\<lambda>seq.
     return_run \<lparr>net = seq\<rparr>))"

section \<open>The separator\<close>

record Separator =
  num_features :: int
  n_sources :: int
  chunk_size :: int
  hop_size :: int
  segment1d :: module_fn
  dprnn :: DualPathTransformer
  overlap_add1d :: module_fn
  glu :: module_fn
  mask_nonlinear :: nonlinearity

text \<open>
  A primed name is the local variable or argument of that name in the source, where
  the plain name is the attribute of the object.
\<close>

definition Separator_init ::
  "externals \<Rightarrow> int \<Rightarrow> int \<Rightarrow> int \<Rightarrow> int \<Rightarrow> int \<Rightarrow> bool \<Rightarrow> bool \<Rightarrow> string \<Rightarrow> string
     \<Rightarrow> int \<Rightarrow> real \<Rightarrow> Separator run" where
  \<comment> \<open>\<^verbatim>\<open>DualPathTransformer\<close> is called without \<^verbatim>\<open>eps\<close>, so with its default \<^verbatim>\<open>EPS\<close>\<close>
  "Separator_init ext num_features' hidden_channels chunk_size' hop_size' num_blocks causal norm'
       out_nonlinear mask_nonlinear' n_sources' eps =
     bind_run (call (Construct ''Segment1d'') (Segment1d ext chunk_size' hop_size')) (\<lambda>seg.
     bind_run (enter (Construct ''DualPathTransformer'')
                 (DualPathTransformer_init num_features' hidden_channels num_blocks causal EPS)) (\<lambda>dp.
     bind_run (call (Construct ''OverlapAdd1d'') (OverlapAdd1d ext chunk_size' hop_size')) (\<lambda>ola.
     bind_run (call (Construct ''GLU'')
                 (GLU ext num_features' (n_sources' * num_features') out_nonlinear)) (\<lambda>g.
     bind_run (if mask_nonlinear' = ''relu'' then call (Construct ''ReLU'') (Inr ReLU)
               else if mask_nonlinear' = ''sigmoid'' then call (Construct ''Sigmoid'') (Inr Sigmoid)
               else if mask_nonlinear' = ''softmax'' then call (Construct ''Softmax'') (Inr (Softmax 1))
               else raise (ValueError (''Cannot support '' @ mask_nonlinear'))) (\<lambda>mn.
     return_run \<lparr>num_features = num_features', n_sources = n_sources',
                 chunk_size = chunk_size', hop_size = hop_size',
                 segment1d = seg, dprnn = dp, overlap_add1d = ola, glu = g,
                 mask_nonlinear = mn\<rparr>)))))"

section \<open>Building the network\<close>

text \<open>The arguments of \<^verbatim>\<open>DPTNet.__init__\<close>; \<open>stride = None\<close> is the default.\<close>

record DPTNet_args =
  n_bases :: int
  kernel_size :: int
  stride :: "int option"
  enc_bases :: "string option"
  dec_bases :: "string option"
  sep_hidden_channels :: int
  sep_chunk_size :: int
  sep_hop_size :: int
  sep_num_blocks :: int
  dilated :: bool
  separable :: bool
  causal :: bool
  sep_norm :: bool
  eps :: real
  mask_nonlinear :: string
  n_sources :: int
  kwargs :: "string \<rightharpoonup> pyval"

text \<open>The attributes of a \<^verbatim>\<open>DPTNet\<close> object.\<close>

record DPTNet =
  n_bases :: int
  kernel_size :: int
  stride :: int
  enc_bases :: "string option"
  dec_bases :: "string option"
  enc_nonlinear :: pyval
  window_fn :: pyval
  sep_hidden_channels :: int
  sep_chunk_size :: int
  sep_hop_size :: int
  sep_num_blocks :: int
  dilated :: bool
  separable :: bool
  causal :: bool
  sep_norm :: bool
  mask_nonlinear :: string
  n_sources :: int
  eps :: real
  encoder :: module_fn
  separator :: Separator
  decoder :: module_fn
  parameters :: "parameter list"
  num_parameters :: nat

text \<open>
  \<^verbatim>\<open>for p in self.parameters(): if p.requires_grad: num_parameters += p.numel()\<close>:
  the second argument is \<^verbatim>\<open>num_parameters\<close> so far.
\<close>

fun count_parameters :: "parameter list \<Rightarrow> nat \<Rightarrow> nat" where
  "count_parameters [] num_parameters' = num_parameters'"
| "count_parameters (p # ps) num_parameters' =
     count_parameters ps (if requires_grad p then num_parameters' + numel p else num_parameters')"

definition get_num_parameters :: "'a DPTNet_scheme \<Rightarrow> nat" where
  "get_num_parameters self = count_parameters (parameters self) 0"

text \<open>
  The count as the specification words it: the sum of the element counts over exactly
  the parameters marked trainable.
\<close>

definition spec_num_parameters :: "parameter list \<Rightarrow> nat" where
  "spec_num_parameters ps = (\<Sum>p \<leftarrow> filter requires_grad ps. numel p)"

definition kwargs_item :: "(string \<rightharpoonup> pyval) \<Rightarrow> string \<Rightarrow> pyval run" where
  \<comment> \<open>\<^verbatim>\<open>kwargs[key]\<close>\<close>
  "kwargs_item kw key = (case kw key of None \<Rightarrow> raise (KeyError key) | Some v \<Rightarrow> return_run v)"

definition is_Fourier :: "string option \<Rightarrow> bool" where
  \<comment> \<open>\<^verbatim>\<open>b in ['Fourier', 'trainableFourier']\<close>\<close>
  "is_Fourier b \<longleftrightarrow> b = Some ''Fourier'' \<or> b = Some ''trainableFourier''"

definition resolve_stride :: "DPTNet_args \<Rightarrow> int" where
  \<comment> \<open>lines 16 and 17 of \<^verbatim>\<open>__init__\<close>: \<^verbatim>\<open>stride\<close> after its default is filled in\<close>
  "resolve_stride a =
     (case DPTNet_args.stride a of None \<Rightarrow> DPTNet_args.kernel_size a div 2 | Some s \<Rightarrow> s)"

definition DPTNet_check_stride :: "DPTNet_args \<Rightarrow> int run" where
  \<comment> \<open>lines 16 to 19 of \<^verbatim>\<open>__init__\<close>: the default of \<^verbatim>\<open>stride\<close> and the assertion;
      the value is \<^verbatim>\<open>stride\<close> as the rest of \<^verbatim>\<open>__init__\<close> sees it\<close>
  "DPTNet_check_stride a =
     (let stride' = resolve_stride a in
     bind_run ([], py_mod (DPTNet_args.kernel_size a) stride') (\<lambda>r.
     bind_run (if r = 0 then return_run ()
               else raise (AssertionError ''kernel_size is expected divisible by stride'')) (\<lambda>_.
     return_run stride')))"

definition DPTNet_build :: "externals \<Rightarrow> DPTNet_args \<Rightarrow> int \<Rightarrow> DPTNet run" where
  \<comment> \<open>lines 21 to 55 of \<^verbatim>\<open>__init__\<close>, with \<^verbatim>\<open>stride\<close> as the lines above leave it\<close>
  "DPTNet_build ext a stride' =
     bind_run (if DPTNet_args.enc_bases a = Some ''trainable''
                  \<and> \<not> DPTNet_args.dec_bases a = Some ''pinv''
               then kwargs_item (kwargs a) ''enc_nonlinear'' else return_run PyNone) (\<lambda>enc_nl.
     bind_run (if is_Fourier (DPTNet_args.enc_bases a) \<or> is_Fourier (DPTNet_args.dec_bases a)
               then kwargs_item (kwargs a) ''window_fn'' else return_run PyNone) (\<lambda>win.
     bind_run (call (Construct ''choose_bases'')
                 (choose_bases ext (DPTNet_args.n_bases a) (DPTNet_args.kernel_size a) stride'
                    (DPTNet_args.enc_bases a) (DPTNet_args.dec_bases a) (kwargs a))) (\<lambda>(enc, dec).
     bind_run (enter (Construct ''Separator'')
                 (Separator_init ext (DPTNet_args.n_bases a) (DPTNet_args.sep_hidden_channels a)
                    (DPTNet_args.sep_chunk_size a) (DPTNet_args.sep_hop_size a)
                    (DPTNet_args.sep_num_blocks a) (DPTNet_args.causal a)
                    (DPTNet_args.sep_norm a) ''tanh'' (DPTNet_args.mask_nonlinear a)
                    (DPTNet_args.n_sources a) (DPTNet_args.eps a))) (\<lambda>sep.
     (let self = \<lparr>n_bases = DPTNet_args.n_bases a, kernel_size = DPTNet_args.kernel_size a,
                   stride = stride',
                   enc_bases = DPTNet_args.enc_bases a, dec_bases = DPTNet_args.dec_bases a,
                   enc_nonlinear = enc_nl, window_fn = win,
                   sep_hidden_channels = DPTNet_args.sep_hidden_channels a,
                   sep_chunk_size = DPTNet_args.sep_chunk_size a,
                   sep_hop_size = DPTNet_args.sep_hop_size a,
                   sep_num_blocks = DPTNet_args.sep_num_blocks a,
                   dilated = DPTNet_args.dilated a, separable = DPTNet_args.separable a,
                   causal = DPTNet_args.causal a, sep_norm = DPTNet_args.sep_norm a,
                   mask_nonlinear = DPTNet_args.mask_nonlinear a,
                   n_sources = DPTNet_args.n_sources a, eps = DPTNet_args.eps a,
                   encoder = enc, separator = sep, decoder = dec,
                   parameters = nn_parameters ext, num_parameters = 0\<rparr>
      in return_run (self\<lparr>num_parameters := get_num_parameters self\<rparr>))))))"

definition DPTNet_init :: "externals \<Rightarrow> DPTNet_args \<Rightarrow> DPTNet run" where
  "DPTNet_init ext a = bind_run (DPTNet_check_stride a) (DPTNet_build ext a)"

text \<open>The defaults of the signature of \<^verbatim>\<open>DPTNet.__init__\<close>, with no keyword left over.\<close>

definition default_args :: "int \<Rightarrow> int \<Rightarrow> DPTNet_args" where
  "default_args n_bases' kernel_size' =
     \<lparr>DPTNet_args.n_bases = n_bases', DPTNet_args.kernel_size = kernel_size',
      DPTNet_args.stride = None,
      DPTNet_args.enc_bases = None, DPTNet_args.dec_bases = None,
      DPTNet_args.sep_hidden_channels = 256,
      DPTNet_args.sep_chunk_size = 100, DPTNet_args.sep_hop_size = 50,
      DPTNet_args.sep_num_blocks = 6,
      DPTNet_args.dilated = True, DPTNet_args.separable = True, DPTNet_args.causal = True,
      DPTNet_args.sep_norm = True, DPTNet_args.eps = EPS,
      DPTNet_args.mask_nonlinear = ''sigmoid'', DPTNet_args.n_sources = 2,
      kwargs = Map.empty\<rparr>"

section \<open>The forward pass\<close>

text \<open>
  Neither chunk transformer defines \<^verbatim>\<open>forward\<close>, so applying one runs the
  \<^verbatim>\<open>forward\<close> inherited from \<^verbatim>\<open>nn.Module\<close>, which raises.
\<close>

definition IntraChunkTransformer_forward :: "IntraChunkTransformer \<Rightarrow> tensor \<Rightarrow> tensor run" where
  "IntraChunkTransformer_forward self input = raise NotImplementedError"

definition InterChunkTransformer_forward :: "InterChunkTransformer \<Rightarrow> tensor \<Rightarrow> tensor run" where
  "InterChunkTransformer_forward self input = raise NotImplementedError"

definition DualPathTransformerBlock_forward ::
  "DualPathTransformerBlock \<Rightarrow> tensor \<Rightarrow> tensor run" where
  "DualPathTransformerBlock_forward self input =
     bind_run (enter (Apply ''intra_chunk_block'')
                 (IntraChunkTransformer_forward (intra_chunk_block self) input)) (\<lambda>x.
     bind_run (enter (Apply ''inter_chunk_block'')
                 (InterChunkTransformer_forward (inter_chunk_block self) x)) (\<lambda>output.
     return_run output))"

text \<open>\<^verbatim>\<open>nn.Sequential\<close>: the blocks in order, each on the output of the one before.\<close>

fun Sequential_forward :: "DualPathTransformerBlock list \<Rightarrow> tensor \<Rightarrow> tensor run" where
  "Sequential_forward [] input = return_run input"
| "Sequential_forward (b # bs) input =
     bind_run (enter (Apply ''DualPathTransformerBlock'') (DualPathTransformerBlock_forward b input))
       (\<lambda>x. Sequential_forward bs x)"

definition DualPathTransformer_forward :: "DualPathTransformer \<Rightarrow> tensor \<Rightarrow> tensor run" where
  "DualPathTransformer_forward self input =
     bind_run (enter (Apply ''net'') (Sequential_forward (net self) input)) (\<lambda>output.
     return_run output)"

definition Separator_forward :: "Separator \<Rightarrow> tensor \<Rightarrow> tensor run" where
  "Separator_forward self input =
     bind_run (unpack3 (shape input)) (\<lambda>(batch_size, num_features', T_bin).
     bind_run ([], py_mod (int T_bin - chunk_size self) (hop_size self)) (\<lambda>r.
     bind_run ([], py_mod (hop_size self - r) (hop_size self)) (\<lambda>padding.
     (let padding_left = padding div 2;
          padding_right = padding - padding_left
      in
     bind_run (call (Pad padding_left padding_right)
                 (F_pad input padding_left padding_right)) (\<lambda>x.
     bind_run (call (Apply ''segment1d'') (segment1d self x)) (\<lambda>x.
     bind_run (enter (Apply ''dprnn'') (DualPathTransformer_forward (dprnn self) x)) (\<lambda>x.
     bind_run (call (Apply ''overlap_add1d'') (overlap_add1d self x)) (\<lambda>x.
     bind_run (call (Pad (- padding_left) (- padding_right))
                 (F_pad x (- padding_left) (- padding_right))) (\<lambda>x.
     bind_run (call (Apply ''glu'') (glu self x)) (\<lambda>x.
     bind_run (call (Apply ''mask_nonlinear'')
                 (apply_nonlinearity (Separator.mask_nonlinear self) x)) (\<lambda>x.
     ([], view x [int batch_size, Separator.n_sources self, int num_features', int T_bin])
     )))))))))))"

definition extract_latent :: "DPTNet \<Rightarrow> tensor \<Rightarrow> (tensor \<times> tensor) run" where
  "extract_latent self input =
     (let n_sources' = DPTNet.n_sources self;
          n_bases' = DPTNet.n_bases self;
          kernel_size' = DPTNet.kernel_size self;
          stride' = DPTNet.stride self
      in
     bind_run (unpack3 (shape input)) (\<lambda>(batch_size, C_in, T).
     bind_run (if C_in = 1 then return_run ()
               else raise (AssertionError
                      (''input.size() is expected (?,1,?), but given '' @ str_Size (shape input))))
       (\<lambda>_.
     bind_run ([], py_mod (int T - kernel_size') stride') (\<lambda>r.
     bind_run ([], py_mod (stride' - r) stride') (\<lambda>padding.
     (let padding_left = padding div 2;
          padding_right = padding - padding_left
      in
     bind_run (call (Pad padding_left padding_right)
                 (F_pad input padding_left padding_right)) (\<lambda>input'.
     bind_run (call (Apply ''encoder'') (encoder self input')) (\<lambda>w.
     bind_run (enter (Apply ''separator'') (Separator_forward (separator self) w)) (\<lambda>mask.
     bind_run ([], unsqueeze w 1) (\<lambda>w.
     bind_run ([], mul w mask) (\<lambda>w_hat.
     (let latent = w_hat in
     bind_run ([], view w_hat [int batch_size * n_sources', n_bases', - 1]) (\<lambda>w_hat.
     bind_run (call (Apply ''decoder'') (decoder self w_hat)) (\<lambda>x_hat.
     bind_run ([], view x_hat [int batch_size, n_sources', - 1]) (\<lambda>x_hat.
     bind_run (call (Pad (- padding_left) (- padding_right))
                 (F_pad x_hat (- padding_left) (- padding_right))) (\<lambda>output.
     return_run (output, latent)))))))))))))))))"

definition forward :: "DPTNet \<Rightarrow> tensor \<Rightarrow> tensor run" where
  "forward self input =
     bind_run (extract_latent self input) (\<lambda>(output, latent). return_run output)"

text \<open>
  The value of \<^verbatim>\<open>padding\<close> at line 78 (and, with the chunk and hop sizes, at line
  136) when the stride is not zero, for use in the statements below:
  \<^verbatim>\<open>(stride - (T - kernel_size) % stride) % stride\<close>.
\<close>

definition padding_of :: "int \<Rightarrow> int \<Rightarrow> int \<Rightarrow> int" where
  "padding_of kernel_size' stride' T = (stride' - (T - kernel_size') mod stride') mod stride'"

section \<open>What is assumed of the encoder and the decoder\<close>

text \<open>
  Modelled from the spec: the encoder and the decoder are built by \<^verbatim>\<open>choose_bases\<close>,
  which is not in this file. The specification gives their contract on sizes: the
  encoder maps \<open>(batch, 1, T_padded)\<close> to \<open>(batch, bases, T')\<close> with
  \<open>T' = (T_padded - kernel_size) / stride + 1\<close>, and the decoder maps
  \<open>(batch, bases, T')\<close> back to \<open>(batch, 1, (T' - 1) * stride + kernel_size)\<close>, which is
  \<open>T_padded\<close> again.
\<close>

definition encoder_contract :: "DPTNet \<Rightarrow> bool" where
  \<comment> \<open>Modelled from the spec: the sizes of the encoder that \<^verbatim>\<open>choose_bases\<close> returns\<close>
  "encoder_contract self \<longleftrightarrow>
     (\<forall>x B Tp. shape x = [B, 1, Tp] \<and> DPTNet.kernel_size self \<le> int Tp
                 \<and> (int Tp - DPTNet.kernel_size self) mod DPTNet.stride self = 0 \<longrightarrow>
        (\<exists>w. encoder self x = Inr w
              \<and> shape w = [B, nat (DPTNet.n_bases self),
                            nat ((int Tp - DPTNet.kernel_size self) div DPTNet.stride self + 1)]))"

definition decoder_contract :: "DPTNet \<Rightarrow> bool" where
  \<comment> \<open>Modelled from the spec: the sizes of the decoder that \<^verbatim>\<open>choose_bases\<close> returns\<close>
  "decoder_contract self \<longleftrightarrow>
     (\<forall>w B T'. shape w = [B, nat (DPTNet.n_bases self), T'] \<and> 0 < T' \<longrightarrow>
        (\<exists>x. decoder self w = Inr x
              \<and> shape x = [B, 1, nat ((int T' - 1) * DPTNet.stride self + DPTNet.kernel_size self)]))"

section \<open>An instance of the imported modules\<close>

text \<open>
  Imported modules with the sizes of the real ones and all values zero, on which the
  definitions can be run: a convolution of \<open>n\<close> channels, kernel \<open>k\<close> and stride \<open>s\<close>
  as encoder, its transpose as decoder, segmentation into chunks of \<open>c\<close> frames every
  \<open>h\<close> frames and its overlap-add, and a projection to \<open>out\<close> channels for the gated
  linear unit. The network has one trainable parameter of 6 elements and one frozen one
  of 4.
\<close>

definition zeros :: "nat list \<Rightarrow> tensor" where
  "zeros s = \<lparr>shape = s, elems = replicate (prod_list s) 0\<rparr>"

definition conv_sizes :: "int \<Rightarrow> int \<Rightarrow> int \<Rightarrow> module_fn" where
  "conv_sizes n k s x =
     (case shape x of
        [B, C, T] \<Rightarrow>
          if k \<le> int T \<and> 0 < s then Inr (zeros [B, nat n, nat ((int T - k) div s + 1)])
          else Inl (RuntimeError ''Kernel size can't be greater than actual input size'')
      | _ \<Rightarrow> Inl (RuntimeError ''Expected 3D input''))"

definition deconv_sizes :: "int \<Rightarrow> int \<Rightarrow> module_fn" where
  "deconv_sizes k s x =
     (case shape x of
        [B, C, T'] \<Rightarrow> Inr (zeros [B, 1, nat ((int T' - 1) * s + k)])
      | _ \<Rightarrow> Inl (RuntimeError ''Expected 3D input''))"

definition segment_sizes :: "int \<Rightarrow> int \<Rightarrow> module_fn" where
  "segment_sizes c h x =
     (case shape x of
        [B, N, T] \<Rightarrow>
          if c \<le> int T \<and> 0 < h then Inr (zeros [B, N, nat ((int T - c) div h + 1), nat c])
          else Inl (RuntimeError ''Kernel size can't be greater than actual input size'')
      | _ \<Rightarrow> Inl (RuntimeError ''Expected 3D input''))"

definition overlap_add_sizes :: "int \<Rightarrow> int \<Rightarrow> module_fn" where
  "overlap_add_sizes c h x =
     (case shape x of
        [B, N, S, C] \<Rightarrow> Inr (zeros [B, N, nat ((int S - 1) * h + c)])
      | _ \<Rightarrow> Inl (RuntimeError ''Expected 4D input''))"

definition glu_sizes :: "int \<Rightarrow> module_fn" where
  "glu_sizes out x =
     (case shape x of
        [B, N, T] \<Rightarrow> Inr (zeros [B, nat out, T])
      | _ \<Rightarrow> Inl (RuntimeError ''Expected 3D input''))"

definition simple_externals :: externals where
  "simple_externals =
     \<lparr>choose_bases = (\<lambda>n k s e d kw. Inr (conv_sizes n k s, deconv_sizes k s)),
      Segment1d = (\<lambda>c h. Inr (segment_sizes c h)),
      OverlapAdd1d = (\<lambda>c h. Inr (overlap_add_sizes c h)),
      GLU = (\<lambda>i out nl. Inr (glu_sizes out)),
      nn_parameters =
        [\<lparr>shape = [2, 3], elems = [1, 2, 3, 4, 5, 6], requires_grad = True\<rparr>,
         \<lparr>shape = [4], elems = [0, 0, 0, 0], requires_grad = False\<rparr>]\<rparr>"

text \<open>
  A small configuration whose construction succeeds: 2 bases, kernel 4, stride 2 by
  default, chunks of 2 frames every frame, no transformer block, 2 sources and the
  softmax for the masks.
\<close>

definition small_args :: DPTNet_args where
  "small_args =
     (default_args 2 4)\<lparr>DPTNet_args.sep_chunk_size := 2, DPTNet_args.sep_hop_size := 1,
                        DPTNet_args.sep_num_blocks := 0,
                        DPTNet_args.mask_nonlinear := ''softmax''\<rparr>"

definition small_net :: DPTNet where
  "small_net = projr (snd (DPTNet_init simple_externals small_args))"

section \<open>Runs\<close>

text \<open>How a run continues after a call that raised and after one that returned.\<close>

lemma bind_run_Inl [simp]: "bind_run (tr, Inl e) f = (tr, Inl e)"
  by (simp add: bind_run_def)

lemma bind_run_Inr [simp]: "bind_run (tr, Inr x) f = (tr @ fst (f x), snd (f x))"
  by (simp add: bind_run_def)

lemma bind_run_raise [simp]: "bind_run (raise e) f = raise e"
  by (simp add: raise_def)

lemma bind_run_return [simp]: "bind_run (return_run x) f = f x"
  by (simp add: return_run_def)

lemma enter_raise [simp]: "enter ev (raise e) = ([ev], Inl e)"
  by (simp add: enter_def raise_def)

lemma enter_pair [simp]: "enter ev (tr, r) = (ev # tr, r)"
  by (simp add: enter_def)

lemmas run_simps = call_def return_run_def raise_def

lemma isl_bind_run_cont: "(\<And>x. isl (snd (f x))) \<Longrightarrow> isl (snd (bind_run m f))"
  by (cases "snd m") (simp_all add: bind_run_def)

lemma bind_run_eq_Inr:
  "bind_run m f = (tr, Inr y) \<longleftrightarrow>
     (\<exists>tr1 x tr2. m = (tr1, Inr x) \<and> f x = (tr2, Inr y) \<and> tr = tr1 @ tr2)"
  by (cases m; cases "snd m") (auto simp: bind_run_def prod_eq_iff)

lemma fst_bind_run:
  "fst (bind_run m f) = fst m @ (case snd m of Inl e \<Rightarrow> [] | Inr x \<Rightarrow> fst (f x))"
  by (cases m; cases "snd m") (simp_all add: bind_run_def)

section \<open>The transformer stack\<close>

text \<open>
  Claim C7. For all arguments, constructing \<^verbatim>\<open>IntraChunkTransformer\<close> or
  \<^verbatim>\<open>InterChunkTransformer\<close> raises \<^verbatim>\<open>NotImplementedError\<close>, which is neither the
  \<^verbatim>\<open>AssertionError\<close> nor the \<^verbatim>\<open>ValueError\<close> with which the file rejects a
  configuration.
\<close>

theorem chunk_transformers_not_implemented:
  "IntraChunkTransformer_init nf hc e = ([], Inl NotImplementedError)
   \<and> InterChunkTransformer_init nf hc c e = ([], Inl NotImplementedError)
   \<and> NotImplementedError \<noteq> AssertionError msg
   \<and> NotImplementedError \<noteq> ValueError msg"
  by (simp add: IntraChunkTransformer_init_def InterChunkTransformer_init_def raise_def)

lemma block_init: "DualPathTransformerBlock_init nf hc c e = ([Construct ''IntraChunkTransformer''], Inl NotImplementedError)"
  by (simp add: DualPathTransformerBlock_init_def IntraChunkTransformer_init_def)

lemma append_blocks_Suc: "append_blocks (Suc k) acc nf hc c e =
   ([Construct ''DualPathTransformerBlock'', Construct ''IntraChunkTransformer''], Inl NotImplementedError)"
  by (simp add: block_init)

lemma dpt_init_pos: "1 \<le> nb \<Longrightarrow> DualPathTransformer_init nf hc nb c e =
   ([Construct ''DualPathTransformerBlock'', Construct ''IntraChunkTransformer''], Inl NotImplementedError)"
proof -
  assume "1 \<le> nb"
  then obtain k where "nat nb = Suc k" by (cases "nat nb") auto
  then show ?thesis by (simp add: DualPathTransformer_init_def append_blocks_Suc del: append_blocks.simps)
qed

lemma dpt_init_nonpos: "nb \<le> 0 \<Longrightarrow> DualPathTransformer_init nf hc nb c e =
   ([Construct ''Sequential''], Inr \<lparr>net = []\<rparr>)"
  by (simp add: DualPathTransformer_init_def call_def return_run_def)

section \<open>Building the separator\<close>

lemma separator_init_pos:
  assumes "1 \<le> nb" "Segment1d ext cs hs = Inr seg"
  shows "Separator_init ext nf hc cs hs nb c nrm onl m ns e =
     ([Construct ''Segment1d'', Construct ''DualPathTransformer'',
       Construct ''DualPathTransformerBlock'', Construct ''IntraChunkTransformer''],
      Inl NotImplementedError)"
  using assms by (simp add: Separator_init_def call_def dpt_init_pos)

lemma separator_init_nonpos_unsupported:
  assumes "nb \<le> 0" "Segment1d ext cs hs = Inr seg" "OverlapAdd1d ext cs hs = Inr ola"
    "GLU ext nf (ns * nf) onl = Inr g" "m \<noteq> ''relu''" "m \<noteq> ''sigmoid''" "m \<noteq> ''softmax''"
  shows "Separator_init ext nf hc cs hs nb c nrm onl m ns e =
     ([Construct ''Segment1d'', Construct ''DualPathTransformer'', Construct ''Sequential'',
       Construct ''OverlapAdd1d'', Construct ''GLU''],
      Inl (ValueError (''Cannot support '' @ m)))"
  using assms by (simp add: Separator_init_def call_def dpt_init_nonpos raise_def)

lemma separator_init_unsupported_fails:
  assumes "m \<noteq> ''relu''" "m \<noteq> ''sigmoid''" "m \<noteq> ''softmax''"
  shows "isl (snd (Separator_init ext nf hc cs hs nb c nrm onl m ns e))"
proof (cases "1 \<le> nb")
  case True
  show ?thesis
  proof (cases "Segment1d ext cs hs")
    case (Inl err) then show ?thesis by (simp add: Separator_init_def call_def)
  next
    case (Inr seg) with True show ?thesis by (simp add: separator_init_pos)
  qed
next
  case False
  then have nb: "nb \<le> 0" by simp
  show ?thesis
    using assms nb
    by (cases "Segment1d ext cs hs"; cases "OverlapAdd1d ext cs hs"; cases "GLU ext nf (ns * nf) onl")
       (simp_all add: Separator_init_def call_def dpt_init_nonpos raise_def)
qed

text \<open>
  Claim C9, as amended. Once \<^verbatim>\<open>Segment1d\<close> is built, \<^verbatim>\<open>Separator.__init__\<close> with
  \<^verbatim>\<open>num_blocks\<close> at least 1 raises \<^verbatim>\<open>NotImplementedError\<close> from the first block of the
  transformer stack, with the same run for every value of \<^verbatim>\<open>mask_nonlinear\<close> and no
  nonlinearity built; so the error for an unsupported \<^verbatim>\<open>mask_nonlinear\<close> is raised only
  when \<^verbatim>\<open>num_blocks\<close> is zero or negative (\<^verbatim>\<open>range(num_blocks)\<close> is then empty), and it
  is raised then, when the imported constructors succeed.
\<close>

theorem Separator_init_blocks_before_mask:
  assumes "Segment1d ext cs hs = Inr seg"
  shows "(1 \<le> nb \<longrightarrow>
           Separator_init ext nf hc cs hs nb c nrm onl m ns e =
             ([Construct ''Segment1d'', Construct ''DualPathTransformer'',
               Construct ''DualPathTransformerBlock'', Construct ''IntraChunkTransformer''],
              Inl NotImplementedError))
       \<and> (snd (Separator_init ext nf hc cs hs nb c nrm onl m ns e)
             = Inl (ValueError (''Cannot support '' @ m)) \<longrightarrow> nb \<le> 0)
       \<and> (nb \<le> 0 \<and> OverlapAdd1d ext cs hs = Inr ola \<and> GLU ext nf (ns * nf) onl = Inr g
            \<and> m \<noteq> ''relu'' \<and> m \<noteq> ''sigmoid'' \<and> m \<noteq> ''softmax'' \<longrightarrow>
           Separator_init ext nf hc cs hs nb c nrm onl m ns e =
             ([Construct ''Segment1d'', Construct ''DualPathTransformer'', Construct ''Sequential'',
               Construct ''OverlapAdd1d'', Construct ''GLU''],
              Inl (ValueError (''Cannot support '' @ m))))"
proof (intro conjI impI)
  assume "1 \<le> nb"
  then show "Separator_init ext nf hc cs hs nb c nrm onl m ns e =
             ([Construct ''Segment1d'', Construct ''DualPathTransformer'',
               Construct ''DualPathTransformerBlock'', Construct ''IntraChunkTransformer''],
              Inl NotImplementedError)"
    using assms by (rule separator_init_pos)
next
  assume v: "snd (Separator_init ext nf hc cs hs nb c nrm onl m ns e)
             = Inl (ValueError (''Cannot support '' @ m))"
  show "nb \<le> 0"
  proof (rule ccontr)
    assume "\<not> nb \<le> 0"
    then have "1 \<le> nb" by simp
    from separator_init_pos[OF this assms] v show False by simp
  qed
next
  assume "nb \<le> 0 \<and> OverlapAdd1d ext cs hs = Inr ola \<and> GLU ext nf (ns * nf) onl = Inr g
            \<and> m \<noteq> ''relu'' \<and> m \<noteq> ''sigmoid'' \<and> m \<noteq> ''softmax''"
  then show "Separator_init ext nf hc cs hs nb c nrm onl m ns e =
             ([Construct ''Segment1d'', Construct ''DualPathTransformer'', Construct ''Sequential'',
               Construct ''OverlapAdd1d'', Construct ''GLU''],
              Inl (ValueError (''Cannot support '' @ m)))"
    using assms by (simp add: separator_init_nonpos_unsupported)
qed

theorem Separator_init_blocks_before_mask_witness:
  "Separator_init simple_externals 64 256 100 50 6 True True ''tanh'' ''bogus'' 2 EPS =
     ([Construct ''Segment1d'', Construct ''DualPathTransformer'',
       Construct ''DualPathTransformerBlock'', Construct ''IntraChunkTransformer''],
      Inl NotImplementedError)
   \<and> Separator_init simple_externals 64 256 100 50 0 True True ''tanh'' ''bogus'' 2 EPS =
     ([Construct ''Segment1d'', Construct ''DualPathTransformer'', Construct ''Sequential'',
       Construct ''OverlapAdd1d'', Construct ''GLU''],
      Inl (ValueError ''Cannot support bogus''))"
proof -
  have seg: "Segment1d simple_externals 100 50 = Inr (segment_sizes 100 50)"
    by (simp add: simple_externals_def)
  have rest: "OverlapAdd1d simple_externals 100 50 = Inr (overlap_add_sizes 100 50)"
     "GLU simple_externals 64 (2 * 64) ''tanh'' = Inr (glu_sizes (2 * 64))"
    by (simp_all add: simple_externals_def)
  show ?thesis
    using Separator_init_blocks_before_mask[OF seg, of 6 64 256 True True "''tanh''" "''bogus''" 2 EPS
            "overlap_add_sizes 100 50" "glu_sizes (2 * 64)"]
          Separator_init_blocks_before_mask[OF seg, of 0 64 256 True True "''tanh''" "''bogus''" 2 EPS
            "overlap_add_sizes 100 50" "glu_sizes (2 * 64)"] rest
    by simp
qed

theorem negative_num_blocks_counterexample:
  "snd (Separator_init simple_externals 64 256 100 50 (- 1) True True ''tanh'' ''bogus'' 2 EPS)
     = Inl (ValueError ''Cannot support bogus'')"
  by (simp add: Separator_init_def simple_externals_def dpt_init_nonpos run_simps)

section \<open>The kernel size and the stride\<close>

lemma check_stride_eval:
  "DPTNet_check_stride a =
     (if resolve_stride a = 0 then ([], Inl ZeroDivisionError)
      else if DPTNet_args.kernel_size a mod resolve_stride a = 0 then ([], Inr (resolve_stride a))
      else ([], Inl (AssertionError ''kernel_size is expected divisible by stride'')))"
  by (simp add: DPTNet_check_stride_def py_mod_def Let_def raise_def return_run_def)

text \<open>
  Claim C5. Whenever \<^verbatim>\<open>kernel_size\<close> is not evenly divisible by \<^verbatim>\<open>stride\<close> (after the
  default of \<^verbatim>\<open>stride\<close> is filled in), \<^verbatim>\<open>DPTNet.__init__\<close> fails at once, whatever the
  imported constructors would do and with no constructor called: with the assertion and
  its message when \<^verbatim>\<open>kernel_size % stride\<close> is not zero, and with Python's
  \<^verbatim>\<open>ZeroDivisionError\<close> from the very same expression when \<^verbatim>\<open>stride\<close> is zero. When
  \<^verbatim>\<open>kernel_size % stride == 0\<close> the check passes and construction goes on with the
  rest of \<^verbatim>\<open>__init__\<close>.
\<close>

theorem DPTNet_init_stride_check:
  "(resolve_stride a \<noteq> 0 \<and> DPTNet_args.kernel_size a mod resolve_stride a \<noteq> 0 \<longrightarrow>
      DPTNet_init ext a = ([], Inl (AssertionError ''kernel_size is expected divisible by stride'')))
   \<and> (resolve_stride a = 0 \<longrightarrow> DPTNet_init ext a = ([], Inl ZeroDivisionError))
   \<and> (resolve_stride a \<noteq> 0 \<and> DPTNet_args.kernel_size a mod resolve_stride a = 0 \<longrightarrow>
      DPTNet_check_stride a = ([], Inr (resolve_stride a))
      \<and> DPTNet_init ext a = DPTNet_build ext a (resolve_stride a))"
  by (simp add: DPTNet_init_def check_stride_eval)

theorem DPTNet_init_stride_check_witness:
  "DPTNet_init simple_externals ((default_args 64 16)\<lparr>DPTNet_args.stride := Some 5\<rparr>)
     = ([], Inl (AssertionError ''kernel_size is expected divisible by stride''))
   \<and> DPTNet_init simple_externals ((default_args 64 16)\<lparr>DPTNet_args.stride := Some 0\<rparr>)
     = ([], Inl ZeroDivisionError)
   \<and> DPTNet_check_stride ((default_args 64 16)\<lparr>DPTNet_args.stride := Some 8\<rparr>) = ([], Inr 8)"
  using DPTNet_init_stride_check[of "(default_args 64 16)\<lparr>DPTNet_args.stride := Some 5\<rparr>" simple_externals]
        DPTNet_init_stride_check[of "(default_args 64 16)\<lparr>DPTNet_args.stride := Some 0\<rparr>" simple_externals]
        DPTNet_init_stride_check[of "(default_args 64 16)\<lparr>DPTNet_args.stride := Some 8\<rparr>" simple_externals]
  by (simp add: resolve_stride_def default_args_def)

lemma simple_DPTNet_init_no_blocks:
  "\<not> isl (snd (DPTNet_init simple_externals ((default_args 64 k)\<lparr>DPTNet_args.sep_num_blocks := 0\<rparr>)))" if "k = 16 \<or> k = 3"
  using that by (auto simp add: DPTNet_init_def check_stride_eval resolve_stride_def DPTNet_build_def default_args_def simple_externals_def
   Separator_init_def dpt_init_nonpos run_simps is_Fourier_def)

lemma default_stride_mod:
  assumes "2 \<le> (k::int)"
  shows "k mod (k div 2) = 0 \<longleftrightarrow> even k \<or> k = 3"
proof (cases "even k")
  case True
  then obtain m where "k = 2 * m" by (auto elim: evenE)
  then show ?thesis by simp
next
  case False
  then obtain m where m: "k = 2 * m + 1" by (auto elim: oddE)
  with assms have m1: "1 \<le> m" by simp
  have "k mod (k div 2) = 1 mod m" using m by simp
  also have "\<dots> = 0 \<longleftrightarrow> m = 1"
  proof (cases "m = 1")
    case True then show ?thesis by simp
  next
    case False
    with m1 have "1 < m" by simp
    then have "1 mod m = 1" by simp
    with False show ?thesis by simp
  qed
  finally show ?thesis using m False by auto
qed

text \<open>
  Claim C10, as amended. With \<^verbatim>\<open>stride\<close> omitted and \<^verbatim>\<open>kernel_size\<close> at least 2, the
  stride is \<^verbatim>\<open>kernel_size // 2\<close> and the divisibility check passes exactly when
  \<^verbatim>\<open>kernel_size\<close> is even or equal to 3 (\<^verbatim>\<open>3 // 2 = 1\<close> divides 3); every odd
  \<^verbatim>\<open>kernel_size\<close> from 5 on is rejected by the assertion.
\<close>

theorem default_stride_check:
  assumes "DPTNet_args.stride a = None" "2 \<le> DPTNet_args.kernel_size a"
  shows "(DPTNet_check_stride a = ([], Inr (DPTNet_args.kernel_size a div 2))
           \<longleftrightarrow> even (DPTNet_args.kernel_size a) \<or> DPTNet_args.kernel_size a = 3)
    \<and> (odd (DPTNet_args.kernel_size a) \<and> 5 \<le> DPTNet_args.kernel_size a \<longrightarrow>
          DPTNet_init ext a = ([], Inl (AssertionError ''kernel_size is expected divisible by stride'')))"
proof -
  let ?k = "DPTNet_args.kernel_size a"
  have rs: "resolve_stride a = ?k div 2" using assms(1) by (simp add: resolve_stride_def)
  have nz: "?k div 2 \<noteq> 0" using assms(2) by simp
  have iff: "?k mod (?k div 2) = 0 \<longleftrightarrow> even ?k \<or> ?k = 3"
    using assms(2) by (rule default_stride_mod)
  have chk: "DPTNet_check_stride a =
      (if ?k mod (?k div 2) = 0 then ([], Inr (?k div 2))
       else ([], Inl (AssertionError ''kernel_size is expected divisible by stride'')))"
    using nz by (simp add: check_stride_eval rs)
  have one: "DPTNet_check_stride a = ([], Inr (?k div 2)) \<longleftrightarrow> even ?k \<or> ?k = 3"
    using iff by (simp add: chk)
  have two: "DPTNet_init ext a = ([], Inl (AssertionError ''kernel_size is expected divisible by stride''))"
    if "odd ?k" "5 \<le> ?k"
  proof -
    from that iff have "?k mod (?k div 2) \<noteq> 0" by auto
    then show ?thesis by (simp add: DPTNet_init_def chk)
  qed
  from one two show ?thesis by blast
qed

theorem default_stride_check_witness:
  "DPTNet_check_stride (default_args 64 16) = ([], Inr 8)
   \<and> DPTNet_init simple_externals (default_args 64 5)
       = ([], Inl (AssertionError ''kernel_size is expected divisible by stride''))"
  using default_stride_check[of "default_args 64 16" simple_externals] default_stride_check[of "default_args 64 5" simple_externals]
  by (simp add: default_args_def)

theorem default_stride_kernel_3_counterexample:
  "DPTNet_check_stride (default_args 64 3) = ([], Inr 1)
   \<and> \<not> isl (snd (DPTNet_init simple_externals ((default_args 64 3)\<lparr>DPTNet_args.sep_num_blocks := 0\<rparr>)))"
proof -
  have "DPTNet_check_stride (default_args 64 3) = ([], Inr 1)"
    by (simp add: check_stride_eval resolve_stride_def default_args_def)
  then show ?thesis by (simp add: simple_DPTNet_init_no_blocks)
qed

section \<open>An unsupported mask nonlinearity\<close>

lemma dptnet_build_unsupported_fails:
  assumes "DPTNet_args.mask_nonlinear a \<noteq> ''relu''" "DPTNet_args.mask_nonlinear a \<noteq> ''sigmoid''"
     "DPTNet_args.mask_nonlinear a \<noteq> ''softmax''"
  shows "isl (snd (DPTNet_build ext a s))"
proof -
  let ?sep = "Separator_init ext (DPTNet_args.n_bases a) (DPTNet_args.sep_hidden_channels a)
                    (DPTNet_args.sep_chunk_size a) (DPTNet_args.sep_hop_size a)
                    (DPTNet_args.sep_num_blocks a) (DPTNet_args.causal a)
                    (DPTNet_args.sep_norm a) ''tanh'' (DPTNet_args.mask_nonlinear a)
                    (DPTNet_args.n_sources a) (DPTNet_args.eps a)"
  have "isl (snd ?sep)" using assms by (rule separator_init_unsupported_fails)
  then obtain tr err where sep: "?sep = (tr, Inl err)" by (cases ?sep; cases "snd ?sep") auto
  have inner: "isl (snd (bind_run (enter (Construct ''Separator'') ?sep) k))" for k :: "Separator \<Rightarrow> DPTNet run"
    by (simp add: sep)
  show ?thesis
    unfolding DPTNet_build_def
    by (intro isl_bind_run_cont) (simp add: split_def inner)
qed

text \<open>
  Claim C2, as amended. For every \<^verbatim>\<open>mask_nonlinear\<close> other than \<^verbatim>\<open>'relu'\<close>,
  \<^verbatim>\<open>'sigmoid'\<close> and \<^verbatim>\<open>'softmax'\<close>, constructing the \<^verbatim>\<open>Separator\<close>, and hence the
  \<^verbatim>\<open>DPTNet\<close>, never succeeds, so no nonlinearity is chosen silently. The error is the
  \<^verbatim>\<open>ValueError\<close> naming the value when the transformer stack is empty
  (\<^verbatim>\<open>num_blocks\<close> zero or negative) and the imported constructors succeed; with
  \<^verbatim>\<open>num_blocks\<close> at least 1 it is the \<^verbatim>\<open>NotImplementedError\<close> of the stack, raised
  before \<^verbatim>\<open>mask_nonlinear\<close> is looked at.
\<close>

theorem unsupported_mask_never_constructs:
  assumes "m \<noteq> ''relu''" "m \<noteq> ''sigmoid''" "m \<noteq> ''softmax''"
  shows "isl (snd (Separator_init ext nf hc cs hs nb c nrm onl m ns e))
       \<and> (DPTNet_args.mask_nonlinear a = m \<longrightarrow> isl (snd (DPTNet_init ext a)))
       \<and> (nb \<le> 0 \<and> Segment1d ext cs hs = Inr seg \<and> OverlapAdd1d ext cs hs = Inr ola
            \<and> GLU ext nf (ns * nf) onl = Inr g \<longrightarrow>
          snd (Separator_init ext nf hc cs hs nb c nrm onl m ns e)
            = Inl (ValueError (''Cannot support '' @ m)))
       \<and> (1 \<le> nb \<and> Segment1d ext cs hs = Inr seg \<longrightarrow>
          snd (Separator_init ext nf hc cs hs nb c nrm onl m ns e) = Inl NotImplementedError)"
proof (intro conjI impI)
  show "isl (snd (Separator_init ext nf hc cs hs nb c nrm onl m ns e))"
    using assms by (rule separator_init_unsupported_fails)
next
  assume "DPTNet_args.mask_nonlinear a = m"
  with assms have "isl (snd (DPTNet_build ext a s))" for s
    by (intro dptnet_build_unsupported_fails) simp_all
  then show "isl (snd (DPTNet_init ext a))"
    unfolding DPTNet_init_def by (rule isl_bind_run_cont)
next
  assume "nb \<le> 0 \<and> Segment1d ext cs hs = Inr seg \<and> OverlapAdd1d ext cs hs = Inr ola
            \<and> GLU ext nf (ns * nf) onl = Inr g"
  then show "snd (Separator_init ext nf hc cs hs nb c nrm onl m ns e)
            = Inl (ValueError (''Cannot support '' @ m))"
    using assms by (simp add: separator_init_nonpos_unsupported)
next
  assume "1 \<le> nb \<and> Segment1d ext cs hs = Inr seg"
  then show "snd (Separator_init ext nf hc cs hs nb c nrm onl m ns e) = Inl NotImplementedError"
    by (simp add: separator_init_pos)
qed

theorem unsupported_mask_never_constructs_witness:
  "isl (snd (Separator_init simple_externals 64 256 100 50 0 True True ''tanh'' ''bogus'' 2 EPS))
   \<and> isl (snd (DPTNet_init simple_externals ((default_args 64 16)\<lparr>DPTNet_args.mask_nonlinear := ''bogus''\<rparr>)))
   \<and> snd (Separator_init simple_externals 64 256 100 50 0 True True ''tanh'' ''bogus'' 2 EPS)
       = Inl (ValueError ''Cannot support bogus'')
   \<and> snd (Separator_init simple_externals 64 256 100 50 6 True True ''tanh'' ''bogus'' 2 EPS)
       = Inl NotImplementedError"
proof -
  have ext: "Segment1d simple_externals 100 50 = Inr (segment_sizes 100 50)"
     "OverlapAdd1d simple_externals 100 50 = Inr (overlap_add_sizes 100 50)"
     "GLU simple_externals 64 (2 * 64) ''tanh'' = Inr (glu_sizes (2 * 64))"
    by (simp_all add: simple_externals_def)
  have m: "''bogus'' \<noteq> ''relu''" "''bogus'' \<noteq> ''sigmoid''" "''bogus'' \<noteq> ''softmax''"
    by simp_all
  show ?thesis
    using unsupported_mask_never_constructs[OF m, of simple_externals 64 256 100 50 0 True True "''tanh''" 2 EPS
              "(default_args 64 16)\<lparr>DPTNet_args.mask_nonlinear := ''bogus''\<rparr>"
              "segment_sizes 100 50" "overlap_add_sizes 100 50" "glu_sizes (2 * 64)"]
          unsupported_mask_never_constructs[OF m, of simple_externals 64 256 100 50 6 True True "''tanh''" 2 EPS
              "(default_args 64 16)\<lparr>DPTNet_args.mask_nonlinear := ''bogus''\<rparr>"
              "segment_sizes 100 50" "overlap_add_sizes 100 50" "glu_sizes (2 * 64)"]
          ext
    by simp
qed

theorem unsupported_mask_six_blocks_counterexample:
  "snd (Separator_init simple_externals 64 256 100 50 6 True True ''tanh'' ''bogus'' 2 EPS)
     = Inl NotImplementedError
   \<and> snd (Separator_init simple_externals 64 256 100 50 6 True True ''tanh'' ''bogus'' 2 EPS)
     \<noteq> Inl (ValueError ''Cannot support bogus'')
   \<and> snd (DPTNet_init simple_externals ((default_args 64 16)\<lparr>DPTNet_args.mask_nonlinear := ''bogus''\<rparr>))
     = Inl NotImplementedError"
  by (simp add: separator_init_pos simple_externals_def DPTNet_init_def check_stride_eval
        resolve_stride_def DPTNet_build_def default_args_def run_simps is_Fourier_def)

section \<open>The number of parameters\<close>

lemma count_parameters_acc:
  "count_parameters ps acc = acc + spec_num_parameters ps"
  by (induction ps arbitrary: acc) (simp_all add: spec_num_parameters_def)

lemma DPTNet_build_Inr:
  assumes "DPTNet_build ext a s = (tr, Inr self)"
  shows "parameters self = nn_parameters ext \<and> num_parameters self = count_parameters (nn_parameters ext) 0"
  using assms
  by (auto simp: DPTNet_build_def bind_run_def return_run_def get_num_parameters_def Let_def split_def
           split: sum.splits if_splits)

text \<open>
  Claim C8. Whenever construction succeeds, the attribute \<^verbatim>\<open>num_parameters\<close> of the
  network is the sum of \<^verbatim>\<open>numel()\<close> over exactly the parameters with
  \<^verbatim>\<open>requires_grad\<close> set, among the parameters \<^verbatim>\<open>self.parameters()\<close> yields.
\<close>

theorem num_parameters_counts_trainable:
  assumes "DPTNet_init ext a = (tr, Inr self)"
  shows "num_parameters self = spec_num_parameters (parameters self)
       \<and> parameters self = nn_parameters ext"
proof -
  from assms obtain tr' s where "DPTNet_build ext a s = (tr', Inr self)"
    by (auto simp: DPTNet_init_def bind_run_def split: sum.splits) (metis prod.collapse)
  from DPTNet_build_Inr[OF this] show ?thesis by (simp add: count_parameters_acc)
qed

theorem num_parameters_counts_trainable_witness:
  "\<not> isl (snd (DPTNet_init simple_externals ((default_args 64 16)\<lparr>DPTNet_args.sep_num_blocks := 0\<rparr>)))
   \<and> num_parameters (projr (snd (DPTNet_init simple_externals
         ((default_args 64 16)\<lparr>DPTNet_args.sep_num_blocks := 0\<rparr>)))) = 6"
proof -
  let ?r = "DPTNet_init simple_externals ((default_args 64 16)\<lparr>DPTNet_args.sep_num_blocks := 0\<rparr>)"
  have ok: "\<not> isl (snd ?r)" by (simp add: simple_DPTNet_init_no_blocks)
  then have "?r = (fst ?r, Inr (projr (snd ?r)))" by (cases ?r; cases "snd ?r") auto
  from num_parameters_counts_trainable[OF this] have "num_parameters (projr (snd ?r)) = spec_num_parameters (nn_parameters simple_externals)"
    by simp
  also have "\<dots> = 6" by (simp add: spec_num_parameters_def simple_externals_def numel_def)
  finally show ?thesis using ok by simp
qed

section \<open>What every constructed network satisfies\<close>

text \<open>
  A network that \<^verbatim>\<open>DPTNet.__init__\<close> returns has a stride that is not zero and divides
  the kernel size, a separator for as many sources as the network, and an empty
  transformer stack: with one block or more the construction raises.
\<close>

lemma DPTNet_check_stride_Inr:
  assumes "DPTNet_check_stride a = (tr, Inr s)"
  shows "s = resolve_stride a \<and> s \<noteq> 0 \<and> DPTNet_args.kernel_size a mod s = 0"
  using assms by (auto simp: check_stride_eval split: if_splits)

lemma Separator_init_Inr:
  assumes "Separator_init ext nf hc cs hs nb c nrm onl m ns e = (tr, Inr sep)"
  shows "Separator.n_sources sep = ns \<and> num_features sep = nf \<and> chunk_size sep = cs
       \<and> hop_size sep = hs \<and> net (dprnn sep) = [] \<and> nb \<le> 0
       \<and> (m = ''relu'' \<and> Separator.mask_nonlinear sep = ReLU
          \<or> m = ''sigmoid'' \<and> Separator.mask_nonlinear sep = Sigmoid
          \<or> m = ''softmax'' \<and> Separator.mask_nonlinear sep = Softmax 1)"
proof (cases "1 \<le> nb")
  case True
  then show ?thesis
    using assms
    by (cases "Segment1d ext cs hs") (simp_all add: Separator_init_def call_def separator_init_pos dpt_init_pos)
next
  case False
  then have nb: "nb \<le> 0" by simp
  show ?thesis
    using assms nb
    by (auto simp: Separator_init_def bind_run_def dpt_init_nonpos run_simps
             split: sum.splits if_splits)
qed

lemma DPTNet_init_Inr:
  assumes "DPTNet_init ext a = (tr, Inr self)"
  shows "DPTNet.stride self = resolve_stride a \<and> DPTNet.stride self \<noteq> 0
       \<and> DPTNet.kernel_size self = DPTNet_args.kernel_size a
       \<and> DPTNet.kernel_size self mod DPTNet.stride self = 0
       \<and> DPTNet.n_sources self = DPTNet_args.n_sources a
       \<and> DPTNet.n_bases self = DPTNet_args.n_bases a
       \<and> Separator.n_sources (separator self) = DPTNet.n_sources self
       \<and> net (dprnn (separator self)) = []
       \<and> DPTNet_args.sep_num_blocks a \<le> 0"
proof -
  from assms obtain tr1 s tr2 where c: "DPTNet_check_stride a = (tr1, Inr s)"
      and b: "DPTNet_build ext a s = (tr2, Inr self)"
    by (auto simp: DPTNet_init_def bind_run_eq_Inr)
  let ?sep = "Separator_init ext (DPTNet_args.n_bases a) (DPTNet_args.sep_hidden_channels a)
                    (DPTNet_args.sep_chunk_size a) (DPTNet_args.sep_hop_size a)
                    (DPTNet_args.sep_num_blocks a) (DPTNet_args.causal a)
                    (DPTNet_args.sep_norm a) ''tanh'' (DPTNet_args.mask_nonlinear a)
                    (DPTNet_args.n_sources a) (DPTNet_args.eps a)"
  from b have self: "DPTNet.stride self = s \<and> DPTNet.kernel_size self = DPTNet_args.kernel_size a
        \<and> DPTNet.n_sources self = DPTNet_args.n_sources a
        \<and> DPTNet.n_bases self = DPTNet_args.n_bases a
        \<and> snd ?sep = Inr (separator self)"
    by (auto simp: DPTNet_build_def bind_run_def return_run_def Let_def split_def enter_def
             split: sum.splits if_splits)
  then have sep: "?sep = (fst ?sep, Inr (separator self))" by (simp add: prod_eq_iff)
  from DPTNet_check_stride_Inr[OF c] Separator_init_Inr[OF sep] self show ?thesis by auto
qed

section \<open>Sizes after the tensor operations\<close>

text \<open>When each operation of the forward pass returns, and with which sizes.\<close>

lemma unpack3_eq: "unpack3 [a, b, c] = ([], Inr (a, b, c))"
  by (simp add: unpack3_def return_run_def)

lemma unpack3_Inr:
  assumes "unpack3 s = (tr, Inr r)"
  shows "\<exists>a b c. s = [a, b, c]"
  using assms by (auto simp: unpack3_def return_run_def raise_def split: list.splits)

lemma F_pad_shape:
  assumes "shape x = outer @ [T]" "0 \<le> int T + min l 0 + min r 0"
  shows "\<exists>y. F_pad x l r = Inr y \<and> shape y = outer @ [nat (int T + l + r)]"
  using assms by (simp add: F_pad_def)

lemma unsqueeze_1:
  assumes "shape w = [B, N, T]"
  shows "\<exists>y. unsqueeze w 1 = Inr y \<and> shape y = [B, 1, N, T]"
  using assms by (simp add: unsqueeze_def)

lemma mul_sources:
  assumes "shape x = [B, 1, N, T]" "shape y = [B, S, N, T]"
  shows "\<exists>z. mul x y = Inr z \<and> shape z = [B, S, N, T]"
  using assms by (simp add: mul_def left_fill_def Let_def)

lemma view_plain_shape:
  assumes "view x sizes = Inr y" "- 1 \<notin> set sizes"
  shows "shape y = map nat sizes"
proof -
  from assms(2) have "filter (\<lambda>d. d \<noteq> - 1) sizes = sizes" by (induction sizes) auto
  with assms(1) show ?thesis by (auto simp: view_def Let_def split: if_splits)
qed

lemma view_plain:
  assumes "numel x = a * b * c * d"
  shows "\<exists>y. view x [int a, int b, int c, int d] = Inr y \<and> shape y = [a, b, c, d]"
  using assms by (simp add: view_def Let_def)

lemma view_infer_last3:
  assumes "numel x = a * b * c" "0 < a" "0 < b"
  shows "\<exists>y. view x [int a, int b, - 1] = Inr y \<and> shape y = [a, b, c]"
proof -
  have "int (a * b * c) div int (a * b) = int ((a * b * c) div (a * b))"
    by (simp add: zdiv_int)
  also have "(a * b * c) div (a * b) = c" using assms(2,3) by simp
  finally have d: "nat (int (a * b * c) div int (a * b)) = c" by simp
  have m: "int (a * b * c) mod int (a * b) = 0"
    by (metis dvd_triv_left dvd_imp_mod_0 of_nat_mult)
  show ?thesis
    using assms d m by (simp add: view_def Let_def flip: of_nat_mult)
qed

lemma view_elems: "view x sizes = Inr y \<Longrightarrow> elems y = elems x"
  by (auto simp: view_def Let_def split: if_splits)

lemma softmax_shape:
  assumes "d < length (shape x)"
  shows "\<exists>y. apply_nonlinearity (Softmax d) x = Inr y \<and> shape y = shape x"
  using assms by (simp add: softmax_def)

section \<open>The padding\<close>

lemma padding_aligns:
  fixes T K S :: int
  shows "(T + (S - (T - K) mod S) mod S - K) mod S = 0"
proof -
  have "(T + (S - (T - K) mod S) mod S - K) mod S = ((T - K) + (S - (T - K) mod S) mod S) mod S"
    by (simp add: algebra_simps)
  also have "\<dots> = ((T - K) mod S + (S - (T - K) mod S)) mod S"
    by (metis mod_add_eq mod_mod_trivial)
  also have "\<dots> = 0" by simp
  finally show ?thesis .
qed

lemma padding_of_range:
  assumes "0 < S"
  shows "0 \<le> padding_of K S T" "padding_of K S T < S"
  using assms by (simp_all add: padding_of_def)

lemma padding_of_aligns: "(T + padding_of K S T - K) mod S = 0"
  unfolding padding_of_def by (rule padding_aligns)

text \<open>
  Removing from both ends what \<^verbatim>\<open>F.pad\<close> added there gives the tensor back.
\<close>

lemma row_of_concat:
  assumes "\<And>j. j < n \<Longrightarrow> length (f j) = L" "i < n"
  shows "take L (drop (i * L) (concat (map f [0..<n]))) = f i"
  using assms
proof (induction n)
  case 0
  then show ?case by simp
next
  case (Suc n)
  have len: "length (concat (map f [0..<n])) = n * L"
    using Suc.prems(1) by (induction n) simp_all
  show ?case
  proof (cases "i < n")
    case True
    then have "(i + 1) * L \<le> n * L" by (simp add: Suc_leI mult_le_mono1 del: mult_Suc)
    then have le: "i * L + L \<le> n * L" by simp
    have "take L (drop (i * L) (concat (map f [0..<n]) @ f n))
            = take L (drop (i * L) (concat (map f [0..<n])))"
      using le len by simp
    also have "\<dots> = f i" using Suc.IH[OF _ True] Suc.prems(1) by simp
    finally show ?thesis by simp
  next
    case False
    with Suc.prems(2) have "i = n" by simp
    then show ?thesis using len Suc.prems(1)[of n] by simp
  qed
qed

lemma concat_rows:
  assumes "length xs = n * T"
  shows "concat (map (\<lambda>i. take T (drop (i * T) xs)) [0..<n]) = xs"
  using assms
proof (induction n arbitrary: xs)
  case 0
  then show ?case by simp
next
  case (Suc n)
  let ?ys = "take (n * T) xs"
  have ly: "length ?ys = n * T" using Suc.prems by simp
  have rows: "take T (drop (i * T) xs) = take T (drop (i * T) ?ys)" if "i < n" for i
  proof -
    from that have "(i + 1) * T \<le> n * T" by (simp add: Suc_leI mult_le_mono1 del: mult_Suc)
    then have "T \<le> n * T - i * T" by simp
    then show ?thesis by (simp add: drop_take min_absorb1)
  qed
  have "concat (map (\<lambda>i. take T (drop (i * T) xs)) [0..<n])
          = concat (map (\<lambda>i. take T (drop (i * T) ?ys)) [0..<n])"
    using rows by (intro arg_cong[where f = concat] map_cong) simp_all
  also have "\<dots> = ?ys" using Suc.IH[OF ly] .
  finally have first: "concat (map (\<lambda>i. take T (drop (i * T) xs)) [0..<n]) = ?ys" .
  have last: "take T (drop (n * T) xs) = drop (n * T) xs" using Suc.prems by simp
  show ?case by (simp add: first last)
qed

lemma pad_row_strip:
  assumes "0 \<le> l" "0 \<le> r"
  shows "pad_row (- l) (- r) (pad_row l r row) = row"
  using assms by (simp add: pad_row_def Let_def)

lemma F_pad_strip_inverse:
  assumes wf: "wf_tensor x" and sh: "shape x = outer @ [T]" and l: "0 \<le> l" and r: "0 \<le> r"
    and y: "F_pad x l r = Inr y"
  shows "F_pad y (- l) (- r) = Inr x"
proof -
  let ?n = "prod_list outer" and ?L = "nat (int T + l + r)"
  let ?f = "\<lambda>i. pad_row l r (take T (drop (i * T) (elems x)))"
  have lx: "length (elems x) = ?n * T" using wf sh by (simp add: wf_tensor_def numel_def)
  have ey: "elems y = concat (map ?f [0..<?n])" and sy: "shape y = outer @ [?L]"
    using y sh l r by (auto simp: F_pad_def)
  have lenf: "length (?f j) = ?L" if "j < ?n" for j
  proof -
    from that have "(j + 1) * T \<le> ?n * T" by (simp add: Suc_leI mult_le_mono1 del: mult_Suc)
    then have "T \<le> length (elems x) - j * T" using lx by simp
    then show ?thesis using l r by (simp add: pad_row_def Let_def nat_add_distrib)
  qed
  have "concat (map (\<lambda>i. pad_row (- l) (- r) (take ?L (drop (i * ?L) (elems y)))) [0..<?n])
        = concat (map (\<lambda>i. pad_row (- l) (- r) (?f i)) [0..<?n])"
    unfolding ey using row_of_concat[of ?n ?f ?L] lenf
    by (intro arg_cong[where f = concat] map_cong) simp_all
  also have "\<dots> = concat (map (\<lambda>i. take T (drop (i * T) (elems x))) [0..<?n])"
    using l r by (simp add: pad_row_strip)
  also have "\<dots> = elems x" using lx by (rule concat_rows)
  finally have e: "concat (map (\<lambda>i. pad_row (- l) (- r) (take ?L (drop (i * ?L) (elems y)))) [0..<?n])
        = elems x" .
  have ok: "\<not> int ?L + min (- l) 0 + min (- r) 0 < 0" using l r by simp
  have inv: "nat (int ?L + - l + - r) = T" using l r by simp
  show ?thesis
    using sy e ok inv sh by (simp add: F_pad_def)
qed

section \<open>The small network\<close>

text \<open>
  What \<^verbatim>\<open>__init__\<close> builds from \<open>small_args\<close>, and that its encoder, decoder and
  separator do what the statements on the forward pass assume.
\<close>

lemmas build_simps = small_net_def DPTNet_init_def check_stride_eval resolve_stride_def DPTNet_build_def small_args_def default_args_def
      simple_externals_def Separator_init_def dpt_init_nonpos run_simps is_Fourier_def get_num_parameters_def numel_def

lemma small_net_separator:
  "separator small_net =
      \<lparr>num_features = 2, n_sources = 2, chunk_size = 2, hop_size = 1,
        segment1d = segment_sizes 2 1, dprnn = \<lparr>net = []\<rparr>,
        overlap_add1d = overlap_add_sizes 2 1, glu = glu_sizes 4,
        mask_nonlinear = Softmax 1\<rparr>"
  by (simp add: build_simps)

lemma small_net_fields:
  "encoder small_net = conv_sizes 2 4 2"
  "decoder small_net = deconv_sizes 4 2"
  "DPTNet.n_sources small_net = 2"
  "DPTNet.n_bases small_net = 2"
  "DPTNet.kernel_size small_net = 4"
  "DPTNet.stride small_net = 2"
  by (simp_all add: build_simps)

lemma small_net_contracts: "encoder_contract small_net" "decoder_contract small_net"
  by (auto simp add: encoder_contract_def decoder_contract_def small_net_fields conv_sizes_def deconv_sizes_def zeros_def)

lemma small_separator_returns:
  assumes w: "shape w = [1, 2, 2]"
  shows "\<not> isl (snd (Separator_forward (separator small_net) w))"
proof -
  obtain xp where xp: "F_pad w 0 0 = Inr xp" "shape xp = [1, 2, 2]"
    using F_pad_shape[of w "[1, 2]" 2 0 0] w by auto
  have seg: "segment_sizes 2 1 xp = Inr (zeros [1, 2, 1, 2])"
    by (simp add: segment_sizes_def xp(2))
  have ola: "overlap_add_sizes 2 1 (zeros [1, 2, 1, 2]) = Inr (zeros [1, 2, 2])"
    by (simp add: overlap_add_sizes_def zeros_def)
  obtain y where y: "F_pad (zeros [1, 2, 2]) 0 0 = Inr y" "shape y = [1, 2, 2]"
    using F_pad_shape[of "zeros [1, 2, 2]" "[1, 2]" 2 0 0] by (auto simp: zeros_def)
  have g: "glu_sizes 4 y = Inr (zeros [1, 4, 2])"
    by (simp add: glu_sizes_def y(2))
  obtain z where z: "apply_nonlinearity (Softmax 1) (zeros [1, 4, 2]) = Inr z" "shape z = [1, 4, 2]"
    using softmax_shape[of 1 "zeros [1, 4, 2]"] by (auto simp: zeros_def)
  have "numel z = 1 * 2 * 2 * 2" by (simp add: numel_def z(2))
  then obtain v where v: "view z [int 1, int 2, int 2, int 2] = Inr v"
    using view_plain by blast
  have v': "view z [1, 2, 2, 2] = Inr v" using v by simp
  have "Separator_forward (separator small_net) w =
          ([Pad 0 0, Apply ''segment1d'', Apply ''dprnn'', Apply ''net'',
            Apply ''overlap_add1d'', Pad 0 0, Apply ''glu'', Apply ''mask_nonlinear''], Inr v)"
    using xp(1) seg ola y(1) g z(1) v'
    by (simp add: Separator_forward_def small_net_separator w unpack3_eq py_mod_def call_def
          DualPathTransformer_forward_def return_run_def)
  then show ?thesis by simp
qed

section \<open>The sizes of the output\<close>

lemma Separator_forward_shape:
  assumes "Separator_forward sep w = (tr, Inr msk)" "shape w = [B, N, T]"
    "0 \<le> Separator.n_sources sep"
  shows "shape msk = [B, nat (Separator.n_sources sep), N, T]"
proof -
  from assms obtain x where "view x [int B, Separator.n_sources sep, int N, int T] = Inr msk"
    by (auto simp: Separator_forward_def unpack3_eq bind_run_eq_Inr Let_def)
  from view_plain_shape[OF this] assms(3) show ?thesis by simp
qed

lemma extract_latent_returns:
  fixes self :: DPTNet and B T :: nat
  defines "K \<equiv> DPTNet.kernel_size self" and "S \<equiv> DPTNet.stride self"
  defines "p \<equiv> (S - (int T - K) mod S) mod S"
  defines "T' \<equiv> nat ((int T + p - K) div S + 1)"
  assumes S: "0 < S" and B: "0 < B" and ns: "0 < DPTNet.n_sources self"
    and nb: "0 < DPTNet.n_bases self" and KT: "K \<le> int T"
    and inp: "shape input = [B, 1, T]"
    and enc: "encoder_contract self" and dec: "decoder_contract self"
    and sep: "\<forall>w. shape w = [B, nat (DPTNet.n_bases self), T']
                \<longrightarrow> \<not> isl (snd (Separator_forward (separator self) w))"
    and sns: "Separator.n_sources (separator self) = DPTNet.n_sources self"
  shows "\<exists>mid out lat.
           extract_latent self input =
             ([Pad (p div 2) (p - p div 2), Apply ''encoder'', Apply ''separator''] @ mid
                @ [Apply ''decoder'', Pad (- (p div 2)) (- (p - p div 2))],
              Inr (out, lat))
         \<and> shape out = [B, nat (DPTNet.n_sources self), T]
         \<and> shape lat = [B, nat (DPTNet.n_sources self), nat (DPTNet.n_bases self), T']"
proof -
  let ?pl = "p div 2" and ?pr = "p - p div 2"
  let ?ns = "nat (DPTNet.n_sources self)" and ?nb = "nat (DPTNet.n_bases self)"
  have p0: "0 \<le> p" and pS: "p < S" using S by (simp_all add: p_def)
  have pl0: "0 \<le> ?pl" and pr0: "0 \<le> ?pr" using p0 by simp_all
  have plr: "?pl + ?pr = p" by simp
  have al: "(int T + p - K) mod S = 0" unfolding p_def by (rule padding_aligns)
  define Tp where "Tp = nat (int T + p)"
  have Tp: "int Tp = int T + p" using p0 by (simp add: Tp_def)
  have m1: "py_mod (int T - K) S = Inr ((int T - K) mod S)"
    and m2: "py_mod (S - (int T - K) mod S) S = Inr p"
    using S by (simp_all add: py_mod_def p_def)
  obtain xp where xp: "F_pad input ?pl ?pr = Inr xp" "shape xp = [B, 1, Tp]"
    using F_pad_shape[of input "[B, 1]" T ?pl ?pr] inp pl0 pr0 plr by (auto simp: Tp_def)
  have "K \<le> int Tp" using KT p0 Tp by simp
  moreover have "(int Tp - K) mod S = 0" using al Tp by simp
  ultimately obtain w where w: "encoder self xp = Inr w" "shape w = [B, ?nb, T']"
    using enc xp(2) Tp unfolding encoder_contract_def K_def S_def T'_def by fastforce
  obtain trs msk where msk: "Separator_forward (separator self) w = (trs, Inr msk)"
    using sep w(2) by (cases "Separator_forward (separator self) w"; cases "snd (Separator_forward (separator self) w)") auto
  have smsk: "shape msk = [B, ?ns, ?nb, T']"
    using Separator_forward_shape[OF msk w(2)] ns sns by simp
  obtain w1 where w1: "unsqueeze w 1 = Inr w1" "shape w1 = [B, 1, ?nb, T']"
    using unsqueeze_1[OF w(2)] by auto
  obtain wh where wh: "mul w1 msk = Inr wh" "shape wh = [B, ?ns, ?nb, T']"
    using mul_sources[OF w1(2) smsk] by auto
  have "numel wh = (B * ?ns) * ?nb * T'" by (simp add: numel_def wh(2))
  moreover have "0 < B * ?ns" "0 < ?nb" using B ns nb by simp_all
  ultimately obtain wv where wv0: "view wh [int (B * ?ns), int ?nb, - 1] = Inr wv"
      and swv: "shape wv = [B * ?ns, ?nb, T']"
    using view_infer_last3 by blast
  have wv: "view wh [int B * DPTNet.n_sources self, DPTNet.n_bases self, - 1] = Inr wv"
    using wv0 ns nb by simp
  have T'pos: "0 < T'"
  proof -
    have "0 \<le> (int T + p - K) div S" using KT p0 S by (simp add: pos_imp_zdiv_nonneg_iff)
    then show ?thesis by (simp add: T'_def)
  qed
  have rt: "nat ((int T' - 1) * S + K) = Tp"
  proof -
    have d0: "0 \<le> (int T + p - K) div S" using KT p0 S by (simp add: pos_imp_zdiv_nonneg_iff)
    then have "int T' - 1 = (int T + p - K) div S" by (simp add: T'_def)
    moreover have "(int T + p - K) div S * S = int T + p - K"
      using al by (simp add: mod_0_imp_dvd)
    ultimately show ?thesis by (simp add: Tp_def)
  qed
  obtain xh where xh: "decoder self wv = Inr xh" "shape xh = [B * ?ns, 1, Tp]"
    using dec swv T'pos rt unfolding decoder_contract_def K_def S_def by fastforce
  have "numel xh = B * ?ns * Tp" by (simp add: numel_def xh(2))
  moreover have "0 < ?ns" using ns by simp
  ultimately obtain xv where xv0: "view xh [int B, int ?ns, - 1] = Inr xv"
      and sxv: "shape xv = [B, ?ns, Tp]"
    using view_infer_last3 B by blast
  have xv: "view xh [int B, DPTNet.n_sources self, - 1] = Inr xv"
    using xv0 ns by simp
  obtain out where out: "F_pad xv (- ?pl) (- ?pr) = Inr out" "shape out = [B, ?ns, T]"
    using F_pad_shape[of xv "[B, ?ns]" Tp "- ?pl" "- ?pr"] sxv pl0 pr0 Tp plr by auto
  have "extract_latent self input =
          ([Pad ?pl ?pr, Apply ''encoder'', Apply ''separator''] @ trs
             @ [Apply ''decoder'', Pad (- ?pl) (- ?pr)], Inr (out, wh))"
    using w1(1) out(1)
    by (simp add: extract_latent_def inp unpack3_eq m1 m2 Let_def call_def xp w msk wh wv xh xv
         return_run_def flip: K_def S_def)
  with out(2) wh(2) show ?thesis by blast
qed

text \<open>
  Claim C3. For a network with a positive stride, at least one source and one basis,
  and an input of sizes \<open>(batch, 1, T)\<close> with \<open>batch\<close> at least 1 and \<open>T\<close> at least
  \<^verbatim>\<open>kernel_size\<close>: when the encoder and the decoder keep their contracts on sizes and
  the separator returns on the latent of the padded input, \<^verbatim>\<open>extract_latent\<close> and
  \<^verbatim>\<open>forward\<close> return, and the output has sizes \<open>(batch, n_sources, T)\<close>: its length is
  the length of the input. The latent has sizes \<open>(batch, n_sources, n_bases, T')\<close> with
  \<open>T' = (T_padded - kernel_size) / stride + 1\<close>. That \<^verbatim>\<open>kernel_size\<close> is a multiple of
  \<^verbatim>\<open>stride\<close> is not needed, and a network that \<^verbatim>\<open>__init__\<close> returns has a separator
  for as many sources as the network (\<open>DPTNet_init_Inr\<close>).
\<close>

theorem extract_latent_output_shape:
  assumes "0 < DPTNet.stride self"
    and "0 < DPTNet.n_sources self" and "0 < DPTNet.n_bases self"
    and "0 < B" and "DPTNet.kernel_size self \<le> int T"
    and "shape input = [B, 1, T]"
    and "encoder_contract self" and "decoder_contract self"
    and "\<forall>w. shape w = [B, nat (DPTNet.n_bases self),
                    nat ((int T + padding_of (DPTNet.kernel_size self) (DPTNet.stride self) (int T)
                            - DPTNet.kernel_size self) div DPTNet.stride self + 1)]
            \<longrightarrow> \<not> isl (snd (Separator_forward (separator self) w))"
    and "Separator.n_sources (separator self) = DPTNet.n_sources self"
  shows "\<exists>tr out lat. extract_latent self input = (tr, Inr (out, lat))
           \<and> forward self input = (tr, Inr out)
           \<and> shape out = [B, nat (DPTNet.n_sources self), T]
           \<and> shape lat = [B, nat (DPTNet.n_sources self), nat (DPTNet.n_bases self),
                  nat ((int T + padding_of (DPTNet.kernel_size self) (DPTNet.stride self) (int T)
                            - DPTNet.kernel_size self) div DPTNet.stride self + 1)]"
proof -
  have "\<exists>mid out lat.
           extract_latent self input = (mid, Inr (out, lat))
         \<and> shape out = [B, nat (DPTNet.n_sources self), T]
         \<and> shape lat = [B, nat (DPTNet.n_sources self), nat (DPTNet.n_bases self),
                  nat ((int T + padding_of (DPTNet.kernel_size self) (DPTNet.stride self) (int T)
                            - DPTNet.kernel_size self) div DPTNet.stride self + 1)]"
    using extract_latent_returns[OF assms(1,4,2,3,5,6,7,8) assms(9)[unfolded padding_of_def] assms(10)]
    unfolding padding_of_def by blast
  then obtain tr out lat where r: "extract_latent self input = (tr, Inr (out, lat))"
      and s: "shape out = [B, nat (DPTNet.n_sources self), T]"
        "shape lat = [B, nat (DPTNet.n_sources self), nat (DPTNet.n_bases self),
                  nat ((int T + padding_of (DPTNet.kernel_size self) (DPTNet.stride self) (int T)
                            - DPTNet.kernel_size self) div DPTNet.stride self + 1)]"
    by blast
  have "forward self input = (tr, Inr out)" by (simp add: forward_def r return_run_def)
  with r s show ?thesis by blast
qed

theorem extract_latent_output_shape_witness:
  "\<exists>tr out lat.
     extract_latent small_net \<lparr>shape = [1, 1, 5], elems = [1, 2, 3, 4, 5]\<rparr> = (tr, Inr (out, lat))
     \<and> forward small_net \<lparr>shape = [1, 1, 5], elems = [1, 2, 3, 4, 5]\<rparr> = (tr, Inr out)
     \<and> shape out = [1, 2, 5] \<and> shape lat = [1, 2, 2, 2]"
proof -
  have sep: "\<forall>w. shape w = [1, nat (DPTNet.n_bases small_net),
                    nat ((int 5 + padding_of (DPTNet.kernel_size small_net) (DPTNet.stride small_net) (int 5)
                            - DPTNet.kernel_size small_net) div DPTNet.stride small_net + 1)]
            \<longrightarrow> \<not> isl (snd (Separator_forward (separator small_net) w))"
    by (simp add: small_net_fields padding_of_def small_separator_returns)
  have ns: "Separator.n_sources (separator small_net) = DPTNet.n_sources small_net"
    by (simp add: small_net_fields small_net_separator)
  show ?thesis
    using extract_latent_output_shape[of small_net 1 5 "\<lparr>shape = [1, 1, 5], elems = [1, 2, 3, 4, 5]\<rparr>",
              OF _ _ _ _ _ _ small_net_contracts sep ns]
    by (simp add: small_net_fields padding_of_def)
qed

section \<open>Padding before the encoder, stripping after the decoder\<close>

lemma extract_latent_trace:
  assumes "extract_latent self input = (tr, Inr (out, lat))"
    and "DPTNet.stride self \<noteq> 0" and "shape input = [B, C, T]"
  shows "\<exists>mid x_hat.
           tr = [Pad (padding_of (DPTNet.kernel_size self) (DPTNet.stride self) (int T) div 2)
                     (padding_of (DPTNet.kernel_size self) (DPTNet.stride self) (int T)
                        - padding_of (DPTNet.kernel_size self) (DPTNet.stride self) (int T) div 2),
                 Apply ''encoder'', Apply ''separator''] @ mid
                @ [Apply ''decoder'',
                   Pad (- (padding_of (DPTNet.kernel_size self) (DPTNet.stride self) (int T) div 2))
                     (- (padding_of (DPTNet.kernel_size self) (DPTNet.stride self) (int T)
                        - padding_of (DPTNet.kernel_size self) (DPTNet.stride self) (int T) div 2))]
         \<and> F_pad x_hat (- (padding_of (DPTNet.kernel_size self) (DPTNet.stride self) (int T) div 2))
                     (- (padding_of (DPTNet.kernel_size self) (DPTNet.stride self) (int T)
                        - padding_of (DPTNet.kernel_size self) (DPTNet.stride self) (int T) div 2))
             = Inr out"
  using assms
  apply (simp add: extract_latent_def unpack3_eq py_mod_def Let_def call_def bind_run_eq_Inr
       return_run_def raise_def enter_def padding_of_def split: if_splits)
  apply (elim exE conjE)
  apply auto
  done

lemma extract_latent_first_call:
  assumes "DPTNet.stride self \<noteq> 0" and "shape input = [B, 1, T]"
  shows "\<exists>rest. fst (extract_latent self input) =
           Pad (padding_of (DPTNet.kernel_size self) (DPTNet.stride self) (int T) div 2)
               (padding_of (DPTNet.kernel_size self) (DPTNet.stride self) (int T)
                  - padding_of (DPTNet.kernel_size self) (DPTNet.stride self) (int T) div 2) # rest"
  using assms
  by (simp add: extract_latent_def unpack3_eq py_mod_def Let_def call_def fst_bind_run padding_of_def)

text \<open>
  Claim C4. For an input of sizes \<open>(batch, 1, T)\<close> and a stride that is not zero,
  \<^verbatim>\<open>extract_latent\<close> computes \<^verbatim>\<open>padding_left = padding // 2\<close> and
  \<^verbatim>\<open>padding_right = padding - padding_left\<close> such that
  \<^verbatim>\<open>(T + padding_left + padding_right - kernel_size) % stride == 0\<close>; its first call is
  \<^verbatim>\<open>F.pad\<close> with these two amounts (for a positive stride both are at least 0, the
  left one is the smaller, and the padded input has \<open>T + padding\<close> samples); and
  whenever it returns, its last call, right after the decoder, is \<^verbatim>\<open>F.pad\<close> with the
  same two amounts negated, whose result is the output.
\<close>

theorem extract_latent_pads_and_strips:
  assumes "DPTNet.stride self \<noteq> 0" and "shape input = [B, 1, T]"
  shows "let padding = padding_of (DPTNet.kernel_size self) (DPTNet.stride self) (int T);
             padding_left = padding div 2;
             padding_right = padding - padding_left
         in (int T + padding_left + padding_right - DPTNet.kernel_size self) mod DPTNet.stride self = 0
          \<and> (\<exists>rest. fst (extract_latent self input) = Pad padding_left padding_right # rest)
          \<and> (0 < DPTNet.stride self \<longrightarrow>
                0 \<le> padding_left \<and> padding_left \<le> padding_right
                \<and> padding_left + padding_right < DPTNet.stride self
                \<and> (\<exists>x. F_pad input padding_left padding_right = Inr x
                        \<and> shape x = [B, 1, nat (int T + padding_left + padding_right)]))
          \<and> (\<forall>tr out lat. extract_latent self input = (tr, Inr (out, lat)) \<longrightarrow>
                (\<exists>mid x_hat.
                   tr = [Pad padding_left padding_right, Apply ''encoder'', Apply ''separator'']
                          @ mid @ [Apply ''decoder'', Pad (- padding_left) (- padding_right)]
                   \<and> F_pad x_hat (- padding_left) (- padding_right) = Inr out))"
proof -
  let ?p = "padding_of (DPTNet.kernel_size self) (DPTNet.stride self) (int T)"
  have a: "(int T + ?p div 2 + (?p - ?p div 2) - DPTNet.kernel_size self) mod DPTNet.stride self = 0"
    using padding_of_aligns[of "int T" "DPTNet.kernel_size self" "DPTNet.stride self"] by simp
  have b: "\<exists>rest. fst (extract_latent self input) = Pad (?p div 2) (?p - ?p div 2) # rest"
    using assms by (rule extract_latent_first_call)
  have c: "0 \<le> ?p div 2 \<and> ?p div 2 \<le> ?p - ?p div 2 \<and> ?p div 2 + (?p - ?p div 2) < DPTNet.stride self
          \<and> (\<exists>x. F_pad input (?p div 2) (?p - ?p div 2) = Inr x
                 \<and> shape x = [B, 1, nat (int T + ?p div 2 + (?p - ?p div 2))])"
    if "0 < DPTNet.stride self"
  proof -
    from padding_of_range[OF that] have r: "0 \<le> ?p" "?p < DPTNet.stride self" by simp_all
    then have "0 \<le> ?p div 2" "?p div 2 \<le> ?p - ?p div 2" by simp_all
    moreover from this r(1) have "\<exists>x. F_pad input (?p div 2) (?p - ?p div 2) = Inr x
                 \<and> shape x = [B, 1, nat (int T + ?p div 2 + (?p - ?p div 2))]"
      using F_pad_shape[of input "[B, 1]" T "?p div 2" "?p - ?p div 2"] assms(2) by simp
    ultimately show ?thesis using r(2) by simp
  qed
  have d: "\<exists>mid x_hat.
             tr = [Pad (?p div 2) (?p - ?p div 2), Apply ''encoder'', Apply ''separator'']
                    @ mid @ [Apply ''decoder'', Pad (- (?p div 2)) (- (?p - ?p div 2))]
             \<and> F_pad x_hat (- (?p div 2)) (- (?p - ?p div 2)) = Inr out"
    if "extract_latent self input = (tr, Inr (out, lat))" for tr out lat
    using extract_latent_trace[OF that assms] .
  from a b c d show ?thesis unfolding Let_def by blast
qed

theorem extract_latent_pads_and_strips_witness:
  "(5 + 0 + 1 - 4) mod (2::int) = 0
   \<and> (\<exists>rest. fst (extract_latent small_net \<lparr>shape = [1, 1, 5], elems = [1, 2, 3, 4, 5]\<rparr>)
          = Pad 0 1 # rest)
   \<and> (\<exists>x. F_pad \<lparr>shape = [1, 1, 5], elems = [1, 2, 3, 4, 5]\<rparr> 0 1 = Inr x \<and> shape x = [1, 1, 6])
   \<and> (\<exists>mid. fst (extract_latent small_net \<lparr>shape = [1, 1, 5], elems = [1, 2, 3, 4, 5]\<rparr>)
          = [Pad 0 1, Apply ''encoder'', Apply ''separator''] @ mid @ [Apply ''decoder'', Pad 0 (- 1)])"
proof -
  let ?x = "\<lparr>shape = [1, 1, 5], elems = [1, 2, 3, 4, 5]\<rparr> :: tensor"
  have sep: "\<forall>w. shape w = [1, nat (DPTNet.n_bases small_net),
                    nat ((int 5 + (DPTNet.stride small_net - (int 5 - DPTNet.kernel_size small_net) mod DPTNet.stride small_net) mod DPTNet.stride small_net
                            - DPTNet.kernel_size small_net) div DPTNet.stride small_net + 1)]
            \<longrightarrow> \<not> isl (snd (Separator_forward (separator small_net) w))"
    by (simp add: small_net_fields small_separator_returns)
  have ns: "Separator.n_sources (separator small_net) = DPTNet.n_sources small_net"
    by (simp add: small_net_fields small_net_separator)
  have "\<exists>mid out lat. extract_latent small_net ?x = (mid, Inr (out, lat))"
    using extract_latent_returns[of small_net 1 5 ?x, OF _ _ _ _ _ _ small_net_contracts sep ns]
    by (simp add: small_net_fields) blast
  then obtain tr out lat where r: "extract_latent small_net ?x = (tr, Inr (out, lat))" by blast
  have p: "padding_of 4 2 5 = 1" by (simp add: padding_of_def)
  show ?thesis
    using extract_latent_pads_and_strips[of small_net ?x 1 5] r
    by (simp add: small_net_fields p Let_def)
qed

section \<open>The number of input channels\<close>

text \<open>
  Claim C6. For an input of sizes \<open>(batch, C_in, T)\<close> with \<open>C_in\<close> other than 1,
  \<^verbatim>\<open>extract_latent\<close>, and so \<^verbatim>\<open>forward\<close>, raises the assertion error whose message
  gives the sizes of the input, with no call made: nothing is padded, encoded or
  separated. With \<open>C_in = 1\<close> the assertion is not what ends the run, and (the stride
  not being zero) the run goes on to pad the input.
\<close>

theorem extract_latent_checks_channels:
  assumes "shape input = [B, C_in, T]"
  shows "(C_in \<noteq> 1 \<longrightarrow>
            extract_latent self input =
              ([], Inl (AssertionError (''input.size() is expected (?,1,?), but given ''
                                          @ str_Size [B, C_in, T])))
          \<and> forward self input =
              ([], Inl (AssertionError (''input.size() is expected (?,1,?), but given ''
                                          @ str_Size [B, C_in, T]))))
       \<and> (C_in = 1 \<longrightarrow>
            (\<forall>msg. extract_latent self input \<noteq> ([], Inl (AssertionError msg)))
          \<and> (DPTNet.stride self \<noteq> 0 \<longrightarrow>
               (\<exists>l r rest. fst (extract_latent self input) = Pad l r # rest)))"
proof (intro conjI impI allI)
  assume "C_in \<noteq> 1"
  then show e: "extract_latent self input =
              ([], Inl (AssertionError (''input.size() is expected (?,1,?), but given ''
                                          @ str_Size [B, C_in, T])))"
    using assms by (simp add: extract_latent_def unpack3_eq Let_def raise_def)
  then show "forward self input =
              ([], Inl (AssertionError (''input.size() is expected (?,1,?), but given ''
                                          @ str_Size [B, C_in, T])))"
    by (simp add: forward_def)
next
  fix msg assume "C_in = 1"
  then show "extract_latent self input \<noteq> ([], Inl (AssertionError msg))"
    using assms
    by (auto simp: extract_latent_def unpack3_eq Let_def return_run_def py_mod_def call_def
          bind_run_def prod_eq_iff split: sum.splits)
next
  assume "C_in = 1" "DPTNet.stride self \<noteq> 0"
  then show "\<exists>l r rest. fst (extract_latent self input) = Pad l r # rest"
    using extract_latent_first_call[of self input B T] assms by blast
qed

theorem extract_latent_checks_channels_witness:
  "extract_latent small_net (zeros [2, 2, 8]) =
     ([], Inl (AssertionError ''input.size() is expected (?,1,?), but given torch.Size([2, 2, 8])''))
   \<and> forward small_net (zeros [2, 2, 8]) =
     ([], Inl (AssertionError ''input.size() is expected (?,1,?), but given torch.Size([2, 2, 8])''))
   \<and> extract_latent small_net (zeros [2, 1, 8])
       \<noteq> ([], Inl (AssertionError ''input.size() is expected (?,1,?), but given torch.Size([2, 1, 8])''))
   \<and> (\<exists>l r rest. fst (extract_latent small_net (zeros [2, 1, 8])) = Pad l r # rest)"
proof -
  have s: "shape (zeros [2, 2, 8]) = [2, 2, 8]" "shape (zeros [2, 1, 8]) = [2, 1, 8]"
    by (simp_all add: zeros_def)
  have m: "str_Size [2, 2, 8] = ''torch.Size([2, 2, 8])''"
    by (simp add: str_Size_def digit_char_def)
  show ?thesis
    using extract_latent_checks_channels[OF s(1), of small_net] extract_latent_checks_channels[OF s(2), of small_net] m
    by (simp add: small_net_fields)
qed

section \<open>The mask nonlinearity\<close>

lemma Separator_forward_mask:
  assumes "Separator_forward sep w = (tr, Inr m)"
  shows "\<exists>x y. apply_nonlinearity (Separator.mask_nonlinear sep) x = Inr y \<and> elems m = elems y"
proof -
  from assms obtain tr1 r where "unpack3 (shape w) = (tr1, Inr r)"
    by (auto simp: Separator_forward_def bind_run_eq_Inr)
  then obtain a b c where "shape w = [a, b, c]" using unpack3_Inr by blast
  with assms obtain x y v where
    "apply_nonlinearity (Separator.mask_nonlinear sep) x = Inr y" "view y v = Inr m"
    by (auto simp: Separator_forward_def unpack3_eq bind_run_eq_Inr Let_def call_def)
  then show ?thesis using view_elems by blast
qed

lemma sigmoid_range:
  fixes v :: real
  shows "0 < 1 / (1 + exp (- v))" "1 / (1 + exp (- v)) < 1"
proof -
  have "0 < exp (- v)" by simp
  then show "0 < 1 / (1 + exp (- v))" "1 / (1 + exp (- v)) < 1"
    by (simp_all add: add_pos_pos)
qed

lemma Separator_forward_sigmoid_range:
  assumes "Separator_forward sep w = (tr, Inr m)" "Separator.mask_nonlinear sep = Sigmoid"
    and "v \<in> set (elems m)"
  shows "0 \<le> v \<and> v \<le> 1"
proof -
  from Separator_forward_mask[OF assms(1)] assms(2) obtain x :: tensor
    where "elems m = map (\<lambda>v. 1 / (1 + exp (- v))) (elems x)" by auto
  with assms(3) obtain u where "v = 1 / (1 + exp (- u))" by auto
  with sigmoid_range[of u] show ?thesis by simp
qed

lemma Separator_forward_relu_range:
  assumes "Separator_forward sep w = (tr, Inr m)" "Separator.mask_nonlinear sep = ReLU"
    and "v \<in> set (elems m)"
  shows "0 \<le> v"
proof -
  from Separator_forward_mask[OF assms(1)] assms(2) obtain x :: tensor
    where "elems m = map (max 0) (elems x)" by auto
  with assms(3) show ?thesis by auto
qed

lemma upt_2: "[0..<2] = [0, 1]" by (simp add: upt_rec)

lemma upt_4: "[0..<4] = [0, 1, 2, 3]" by (simp add: upt_rec)

lemma upt_8: "[0..<8] = [0, 1, 2, 3, 4, 5, 6, 7]" by (simp add: upt_rec)

lemmas separator_eval_simps = small_net_separator Separator_forward_def unpack3_eq py_mod_def F_pad_def pad_row_def call_def
     segment_sizes_def zeros_def DualPathTransformer_forward_def overlap_add_sizes_def glu_sizes_def softmax_def
     view_def numel_def return_run_def upt_4 upt_8

lemma small_separator_zero_latent:
  "Separator_forward (separator small_net) \<lparr>shape = [1, 2, 2], elems = [0, 0, 0, 0]\<rparr> =
     ([Pad 0 0, Apply ''segment1d'', Apply ''dprnn'', Apply ''net'',
       Apply ''overlap_add1d'', Pad 0 0, Apply ''glu'', Apply ''mask_nonlinear''],
      Inr \<lparr>shape = [1, 2, 2, 2],
             elems = [1 / 4, 1 / 4, 1 / 4, 1 / 4, 1 / 4, 1 / 4, 1 / 4, 1 / 4]\<rparr>)"
  by (simp add: separator_eval_simps)

text \<open>
  Claim C1, at an input where the code departs from it. The separator of the small
  network has 2 sources, 2 bases and the softmax. On a latent of sizes \<open>(1, 2, 2)\<close> the
  gated linear unit returns zeros of sizes \<open>(1, 4, 2)\<close>, and \<^verbatim>\<open>nn.Softmax(dim=1)\<close> is
  applied to that tensor, before the \<^verbatim>\<open>view\<close> that separates sources from bases: it
  normalises over the 4 channels together, every mask value is \<open>1/4\<close>, and the two
  sources at batch entry 0, basis 0 and frame 0 sum to \<open>1/2\<close>, not to 1. (For the
  sigmoid and the rectifier the ranges of the claim hold: see
  \<open>Separator_forward_sigmoid_range\<close> and \<open>Separator_forward_relu_range\<close>.)
\<close>

theorem softmax_mask_source_sum_small_net:
  "source_sum (projr (snd (Separator_forward (separator small_net)
       \<lparr>shape = [1, 2, 2], elems = [0, 0, 0, 0]\<rparr>))) 0 0 0 = 1 / 2"
  unfolding small_separator_zero_latent
  by (simp add: source_sum_def tensor_at_def upt_2)

text \<open>
  \<^verbatim>\<open>Separator.forward\<close> applies the mask nonlinearity to the output of the gated linear
  unit, of sizes \<open>(batch, n_sources * num_features, T_bin)\<close>, and only then separates the
  sources from the bases. So \<^verbatim>\<open>nn.Softmax(dim=1)\<close> makes the values of all sources and
  bases at one batch entry and frame sum to 1 (\<open>softmax_dim1_sums_to_one\<close>), and with 2
  bases or more the sources at one basis sum to less than 1
  (\<open>softmax_before_view_source_sum\<close>), for every input.
\<close>

lemma index3_less:
  fixes c t C T :: nat
  assumes "c < C" "t < T"
  shows "c * T + t < C * T"
proof -
  have "c * T + t < c * T + T" using assms(2) by simp
  also have "\<dots> = (c + 1) * T" by simp
  also have "\<dots> \<le> C * T" using assms(1) by (intro mult_le_mono1) simp
  finally show ?thesis .
qed

lemma div_mod_block:
  fixes b M r :: nat
  assumes "r < M"
  shows "(b * M + r) div M = b" "(b * M + r) mod M = r"
  using assms by simp_all

lemma unravel3:
  assumes "c < C" "t < T"
  shows "unravel [B, C, T] (b * (C * T) + c * T + t) = [b, c, t]"
proof -
  have lt: "c * T + t < C * T" using assms by (rule index3_less)
  have i: "b * (C * T) + c * T + t = b * (C * T) + (c * T + t)" by simp
  show ?thesis
    unfolding i
    using assms(2) by (simp add: div_mod_block[OF lt] div_mod_block[OF assms(2)] mod_less[OF lt] del: mult_eq_0_iff)
qed

lemma ravel3: "ravel [B, C, T] [b, j, t] = b * (C * T) + j * T + t"
  by simp

lemma softmax_dim1_nth:
  assumes sh: "shape x = [B, C, T]" and bct: "b < B" "c < C" "t < T"
    and wf: "wf_tensor x" and y: "softmax 1 x = Inr y"
  shows "elems y ! (b * (C * T) + c * T + t) =
           exp (elems x ! (b * (C * T) + c * T + t))
             / (\<Sum>j = 0..<C. exp (elems x ! (b * (C * T) + j * T + t)))"
proof -
  let ?i = "b * (C * T) + c * T + t"
  have "c * T + t < C * T" using bct(2,3) by (rule index3_less)
  moreover have "(b + 1) * (C * T) \<le> B * (C * T)" using bct(1) by (intro mult_le_mono1) simp
  ultimately have i: "?i < B * (C * T)" by simp
  have n: "numel x = B * (C * T)" by (simp add: numel_def sh)
  have ey: "elems y = map (\<lambda>i. exp (elems x ! i)
                       / (\<Sum>j \<leftarrow> [0..<C].
                            exp (elems x ! ravel [B, C, T] ((unravel [B, C, T] i)[1 := j]))))
                 [0..<B * (C * T)]"
    using y by (auto simp: softmax_def sh n)
  have "elems y ! ?i = exp (elems x ! ?i)
          / (\<Sum>j \<leftarrow> [0..<C]. exp (elems x ! ravel [B, C, T] ((unravel [B, C, T] ?i)[1 := j])))"
    unfolding ey using i by (simp del: unravel.simps ravel.simps)
  also have "(\<Sum>j \<leftarrow> [0..<C]. exp (elems x ! ravel [B, C, T] ((unravel [B, C, T] ?i)[1 := j])))
           = (\<Sum>j \<leftarrow> [0..<C]. exp (elems x ! (b * (C * T) + j * T + t)))"
    by (simp only: unravel3[OF bct(2,3)] ravel3 list_update_code list.simps One_nat_def)
  also have "\<dots> = (\<Sum>j = 0..<C. exp (elems x ! (b * (C * T) + j * T + t)))"
    by (simp add: interv_sum_list_conv_sum_set_nat)
  finally show ?thesis .
qed

lemma softmax_dim1_sums_to_one:
  assumes sh: "shape x = [B, C, T]" and wf: "wf_tensor x"
    and y: "apply_nonlinearity (Softmax 1) x = Inr y"
    and C: "0 < C" and bt: "b < B" "t < T"
  shows "(\<Sum>c = 0..<C. elems y ! (b * (C * T) + c * T + t)) = 1"
proof -
  let ?h = "\<lambda>j. exp (elems x ! (b * (C * T) + j * T + t))"
  let ?D = "\<Sum>j = 0..<C. ?h j"
  have y': "softmax 1 x = Inr y" using y by simp
  have D: "0 < ?D" using C by (intro sum_pos) simp_all
  have "(\<Sum>c = 0..<C. elems y ! (b * (C * T) + c * T + t)) = (\<Sum>c = 0..<C. ?h c / ?D)"
    using softmax_dim1_nth[OF sh bt(1) _ bt(2) wf y'] by (intro sum.cong) simp_all
  also have "\<dots> = ?D / ?D" by (rule sum_divide_distrib[symmetric])
  also have "\<dots> = 1" using D by simp
  finally show ?thesis .
qed

lemma sum_group:
  fixes h :: "nat \<Rightarrow> real"
  shows "(\<Sum>j = 0..<S * N. h j) = (\<Sum>s = 0..<S. \<Sum>n = 0..<N. h (s * N + n))"
proof (induction S)
  case 0
  then show ?case by simp
next
  case (Suc S)
  have "(\<Sum>j = 0..<Suc S * N. h j) = (\<Sum>j = 0..<S * N. h j) + (\<Sum>j = S * N..<S * N + N. h j)"
    by (simp add: sum.atLeastLessThan_concat add.commute)
  also have "(\<Sum>j = S * N..<S * N + N. h j) = (\<Sum>n = 0..<N. h (S * N + n))"
    using sum.shift_bounds_nat_ivl[of h 0 "S * N" N] by (simp add: add.commute)
  finally show ?case using Suc.IH by simp
qed

lemma sum_one_of_group:
  fixes h :: "nat \<Rightarrow> real"
  assumes pos: "\<And>j. 0 < h j" and S: "0 < S" and N: "2 \<le> N" and f: "f < N"
  shows "(\<Sum>s = 0..<S. h (s * N + f)) < (\<Sum>j = 0..<S * N. h j)"
proof -
  have one: "h (s * N + f) < (\<Sum>n = 0..<N. h (s * N + n))" for s
  proof -
    have "(\<Sum>n = 0..<N. h (s * N + n)) = h (s * N + f) + (\<Sum>n \<in> {0..<N} - {f}. h (s * N + n))"
      using f by (intro sum.remove) simp_all
    moreover have "{0..<N} - {f} \<noteq> {}"
    proof -
      obtain g where "g < N" "g \<noteq> f" using N f by (cases "f = 0") (auto intro: that[of 1] that[of 0])
      then show ?thesis by auto
    qed
    then have "0 < (\<Sum>n \<in> {0..<N} - {f}. h (s * N + n))"
      by (intro sum_pos pos) simp_all
    ultimately show ?thesis by simp
  qed
  have "(\<Sum>s = 0..<S. h (s * N + f)) < (\<Sum>s = 0..<S. \<Sum>n = 0..<N. h (s * N + n))"
    using S by (intro sum_strict_mono one) simp_all
  then show ?thesis by (simp add: sum_group)
qed

lemma softmax_before_view_source_sum:
  assumes sh: "shape x = [B, S * N, T]" and wf: "wf_tensor x"
    and y: "apply_nonlinearity (Softmax 1) x = Inr y"
    and m: "view y [int B, int S, int N, int T] = Inr m"
    and N: "2 \<le> N" and S: "0 < S" and bft: "b < B" "f < N" "t < T"
  shows "source_sum m b f t < 1"
proof -
  let ?C = "S * N"
  let ?h = "\<lambda>j. exp (elems x ! (b * (?C * T) + j * T + t))"
  let ?D = "\<Sum>j = 0..<?C. ?h j"
  have y': "softmax 1 x = Inr y" using y by simp
  have sm: "shape m = [B, S, N, T]" and em: "elems m = elems y"
    using m by (auto simp: view_def Let_def split: if_splits)
  have at: "tensor_at m [b, s, f, t] = ?h (s * N + f) / ?D" if "s < S" for s
  proof -
    have c: "s * N + f < ?C" using that bft(2) by (rule index3_less)
    have "ravel (shape m) [b, s, f, t] = b * (?C * T) + (s * N + f) * T + t"
      by (simp add: sm algebra_simps)
    then show ?thesis
      using softmax_dim1_nth[OF sh bft(1) c bft(3) wf y'] by (simp add: tensor_at_def em)
  qed
  have D: "0 < ?D" using S N by (intro sum_pos) simp_all
  have "source_sum m b f t = (\<Sum>s = 0..<S. tensor_at m [b, s, f, t])"
    by (simp add: source_sum_def sm interv_sum_list_conv_sum_set_nat)
  also have "\<dots> = (\<Sum>s = 0..<S. ?h (s * N + f) / ?D)"
    by (intro sum.cong) (simp_all add: at)
  also have "\<dots> = (\<Sum>s = 0..<S. ?h (s * N + f)) / ?D"
    by (simp add: sum_divide_distrib)
  also have "\<dots> < 1"
    using sum_one_of_group[of ?h S N f] S N bft(2) D by simp
  finally show ?thesis .
qed

end
